theory Spec2Isabelle
  imports Main
begin

section \<open>Errors and results\<close>

text \<open>
  The Python exceptions that the modelled code can raise. A call that may raise returns
  \<open>error + 'a\<close> (\<open>Inl\<close> the exception). A method that also mutates its object returns
  the object next to the result, on both branches: an assignment made before a
  \<^verbatim>\<open>raise\<close> stays made.
\<close>

datatype error =
    ValueError
  | TypeError
  | RuntimeError
  | AttributeError
  | KeyError
  | IndexError
  | AssertionError
  | JSONDecodeError
  | ClientError

section \<open>The ecology manager (sosw/managers/ecology.py)\<close>

subsection \<open>Data\<close>

text \<open>
  \<^verbatim>\<open>ECO_STATUSES\<close>, the tuple of (ordinal, name) pairs, and the property
  \<^verbatim>\<open>eco_statuses\<close> listing the ordinals.
\<close>

definition ECO_STATUSES :: "(int \<times> string) list" where
  "ECO_STATUSES = [(0, ''Bad''), (1, ''Poor''), (2, ''Moderate''), (3, ''Good''), (4, ''High'')]"

definition eco_statuses :: "int list" where
  "eco_statuses = map fst ECO_STATUSES"

text \<open>
  The comparison functions of Python's \<^verbatim>\<open>operator\<close> module that a metric may name in
  \<^verbatim>\<open>feeling_comparison_operator\<close>; \<open>operator_fn\<close> is \<^verbatim>\<open>getattr(operator, name)\<close>
  on them. Samples and thresholds are Python integers.
\<close>

datatype comparison = LT | LE | EQ | NE | GE | GT

fun operator_fn :: "comparison \<Rightarrow> int \<Rightarrow> int \<Rightarrow> bool" where
  "operator_fn LT a b = (a < b)"
| "operator_fn LE a b = (a \<le> b)"
| "operator_fn EQ a b = (a = b)"
| "operator_fn NE a b = (a \<noteq> b)"
| "operator_fn GE a b = (a \<ge> b)"
| "operator_fn GT a b = (a > b)"

text \<open>
  A health metric of a labourer: the keyword arguments of the metrics query
  (\<^verbatim>\<open>details\<close>), the dict \<^verbatim>\<open>feelings\<close> from ordinal to threshold (an association
  list; a key is looked up with \<open>map_of\<close>) and the comparison operator.
\<close>

type_synonym details = "(string \<times> string) list"

record metric =
  details :: details
  feelings :: "(int \<times> int) list"
  feeling_comparison_operator :: comparison

text \<open>
  A labourer: its id and its attribute \<^verbatim>\<open>health_metrics\<close>, a dict from a name to a
  metric, in insertion order; \<open>None\<close> when the object has no such attribute.
\<close>

record labourer =
  labourer_id :: string
  labourer_health_metrics :: "(string \<times> metric) list option"

text \<open>
  The task manager is an external collaborator: the two queries the ecology manager
  sends it. The CloudWatch client is external too: \<^verbatim>\<open>get_metric_statistics\<close> as a
  function of its keyword arguments. Every call that goes out is appended to
  \<open>ext_calls\<close>.
\<close>

record task_manager =
  get_count_of_running_tasks_for_labourer :: "labourer \<Rightarrow> int"
  get_average_labourer_duration :: "labourer \<Rightarrow> int"

datatype ext_call =
    GetMetricStatistics details
  | GetCountOfRunningTasks string
  | GetAverageDuration string

text \<open>
  The fields of an \<^verbatim>\<open>EcologyManager\<close>: \<^verbatim>\<open>running_tasks\<close> (a
  \<^verbatim>\<open>defaultdict(int)\<close>, only ever read at keys it holds), \<^verbatim>\<open>health_metrics\<close>
  (\<open>None\<close> until a task manager is registered), \<^verbatim>\<open>task_client\<close> and
  \<^verbatim>\<open>cloudwatch_client\<close>.
\<close>

record ecology_manager =
  running_tasks :: "string \<rightharpoonup> int"
  health_metrics :: "(string \<rightharpoonup> int) option"
  task_client :: "task_manager option"
  cloudwatch_client :: "(details \<Rightarrow> int) option"
  ext_calls :: "ext_call list"

text \<open>
  The class attributes, which a new instance reads until it assigns its own. The
  CloudWatch client is installed by the base class \<^verbatim>\<open>Processor\<close>, so it is an
  argument here.
\<close>

definition new_ecology_manager :: "(details \<Rightarrow> int) option \<Rightarrow> ecology_manager" where
  "new_ecology_manager cw =
     \<lparr>running_tasks = Map.empty, health_metrics = None, task_client = None,
      cloudwatch_client = cw, ext_calls = []\<rparr>"

subsection \<open>Operations\<close>

definition register_task_manager :: "ecology_manager \<Rightarrow> task_manager \<Rightarrow> ecology_manager" where
  "register_task_manager self tm =
     self\<lparr>task_client := Some tm, running_tasks := Map.empty, health_metrics := Some Map.empty\<rparr>"

definition fetch_metric_stats ::
  "ecology_manager \<Rightarrow> details \<Rightarrow> (error + int) \<times> ecology_manager" where
  "fetch_metric_stats self kwargs =
     (case cloudwatch_client self of
        None \<Rightarrow> (Inl AttributeError, self)
      | Some cw \<Rightarrow>
          (Inr (cw kwargs), self\<lparr>ext_calls := ext_calls self @ [GetMetricStatistics kwargs]\<rparr>))"

text \<open>
  \<^verbatim>\<open>get_health\<close>. The feelings are ordered by key, highest first
  (\<^verbatim>\<open>sorted(keys, reverse=True)\<close>; the keys of a dict are distinct), each key with its
  threshold. The loop over them is \<open>walk_feelings\<close>: it raises when
  \<^verbatim>\<open>op(target, last_target)\<close> is true, returns the key when \<^verbatim>\<open>op(value, target)\<close> is
  true, and otherwise goes on with \<^verbatim>\<open>last_target = target\<close>; after the loop the
  result is 0.
\<close>

definition ordered_feelings :: "(int \<times> int) list \<Rightarrow> (int \<times> int) list" where
  "ordered_feelings fs =
     map (\<lambda>key. (key, the (map_of fs key))) (rev (sort (remdups (map fst fs))))"

fun walk_feelings ::
  "(int \<Rightarrow> int \<Rightarrow> bool) \<Rightarrow> int \<Rightarrow> int \<Rightarrow> (int \<times> int) list \<Rightarrow> error + int" where
  "walk_feelings op v last_target [] = Inr 0"
| "walk_feelings op v last_target ((health, target) # rest) =
     (if op target last_target then Inl ValueError
      else if op v target then Inr health
      else walk_feelings op v target rest)"

definition get_health :: "int \<Rightarrow> metric \<Rightarrow> error + int" where
  "get_health v m =
     walk_feelings (operator_fn (feeling_comparison_operator m)) v 0
       (ordered_feelings (feelings m))"

text \<open>
  The first half of the body of the loop of \<^verbatim>\<open>get_labourer_status\<close>: the sample of
  one metric, from the cache \<^verbatim>\<open>health_metrics\<close> when its hash is there, fetched and
  stored otherwise. The membership test on a cache that is \<open>None\<close> raises
  \<^verbatim>\<open>TypeError\<close>. \<^verbatim>\<open>make_hash\<close> lives in sosw/components/helpers.py and is an
  argument.
\<close>

definition metric_value ::
  "(details \<Rightarrow> string) \<Rightarrow> ecology_manager \<Rightarrow> metric \<Rightarrow> (error + int) \<times> ecology_manager" where
  "metric_value make_hash self health_metric =
     (let metric_hash = make_hash (details health_metric) in
      case health_metrics self of
        None \<Rightarrow> (Inl TypeError, self)
      | Some cache \<Rightarrow>
          (case cache metric_hash of
             Some v \<Rightarrow> (Inr v, self)
           | None \<Rightarrow>
               (case fetch_metric_stats self (details health_metric) of
                  (Inl e, self') \<Rightarrow> (Inl e, self')
                | (Inr r, self') \<Rightarrow>
                    (Inr r, self'\<lparr>health_metrics := Some (cache(metric_hash \<mapsto> r))\<rparr>))))"

text \<open>The loop of \<^verbatim>\<open>get_labourer_status\<close> over the metrics, with the running minimum.\<close>

fun health_loop ::
  "(details \<Rightarrow> string) \<Rightarrow> ecology_manager \<Rightarrow> int \<Rightarrow> metric list
     \<Rightarrow> (error + int) \<times> ecology_manager" where
  "health_loop make_hash self health [] = (Inr health, self)"
| "health_loop make_hash self health (health_metric # rest) =
     (case metric_value make_hash self health_metric of
        (Inl e, self') \<Rightarrow> (Inl e, self')
      | (Inr v, self') \<Rightarrow>
          (case get_health v health_metric of
             Inl e \<Rightarrow> (Inl e, self')
           | Inr h \<Rightarrow> health_loop make_hash self' (min health h) rest))"

text \<open>
  \<^verbatim>\<open>getattr(labourer, 'health_metrics', dict()).values()\<close>: the metrics of a
  labourer, none when the attribute is missing.
\<close>

definition labourer_metrics :: "labourer \<Rightarrow> metric list" where
  "labourer_metrics lab =
     (case labourer_health_metrics lab of None \<Rightarrow> [] | Some hm \<Rightarrow> map snd hm)"

definition get_labourer_status ::
  "(details \<Rightarrow> string) \<Rightarrow> ecology_manager \<Rightarrow> labourer \<Rightarrow> (error + int) \<times> ecology_manager" where
  "get_labourer_status make_hash self lab =
     health_loop make_hash self (Max (set (map fst ECO_STATUSES))) (labourer_metrics lab)"

text \<open>The entries of the sample cache; a cache that is \<open>None\<close> has none.\<close>

definition cached :: "ecology_manager \<Rightarrow> string \<rightharpoonup> int" where
  "cached self = (case health_metrics self of None \<Rightarrow> Map.empty | Some cache \<Rightarrow> cache)"

definition count_running_tasks_for_labourer ::
  "ecology_manager \<Rightarrow> labourer \<Rightarrow> (error + int) \<times> ecology_manager" where
  "count_running_tasks_for_labourer self lab =
     (case task_client self of
        None \<Rightarrow> (Inl RuntimeError, self)
      | Some tc \<Rightarrow>
          (case running_tasks self (labourer_id lab) of
             Some n \<Rightarrow> (Inr n, self)
           | None \<Rightarrow>
               (let n = get_count_of_running_tasks_for_labourer tc lab in
                (Inr n,
                 self\<lparr>running_tasks := (running_tasks self)(labourer_id lab \<mapsto> n),
                      ext_calls := ext_calls self @ [GetCountOfRunningTasks (labourer_id lab)]\<rparr>))))"

definition add_running_tasks_for_labourer ::
  "ecology_manager \<Rightarrow> labourer \<Rightarrow> int \<Rightarrow> (error + unit) \<times> ecology_manager" where
  "add_running_tasks_for_labourer self lab count =
     (case count_running_tasks_for_labourer self lab of
        (Inl e, self') \<Rightarrow> (Inl e, self')
      | (Inr n, self') \<Rightarrow>
          (Inr (), self'\<lparr>running_tasks := (running_tasks self')(labourer_id lab \<mapsto> n + count)\<rparr>))"

definition get_labourer_average_duration ::
  "ecology_manager \<Rightarrow> labourer \<Rightarrow> (error + int) \<times> ecology_manager" where
  "get_labourer_average_duration self lab =
     (case task_client self of
        None \<Rightarrow> (Inl RuntimeError, self)
      | Some tc \<Rightarrow>
          (Inr (get_average_labourer_duration tc lab),
           self\<lparr>ext_calls := ext_calls self @ [GetAverageDuration (labourer_id lab)]\<rparr>))"

definition get_max_labourer_duration :: "ecology_manager \<Rightarrow> labourer \<Rightarrow> int" where
  "get_max_labourer_duration self lab = 900"

section \<open>Configuration (sosw/components/config.py)\<close>

subsection \<open>Python values and strings\<close>

text \<open>
  \<^verbatim>\<open>os.environ\<close> is a map from names to texts. A Python value, as far as configuration
  values go: what \<^verbatim>\<open>json.loads\<close> can return, \<^verbatim>\<open>None\<close> and \<^verbatim>\<open>str\<close> among them (floats
  are left out). \<^verbatim>\<open>json.loads\<close> itself belongs to the standard library and is an
  argument \<open>json_loads\<close> of the functions that call it: \<open>None\<close> when it raises
  \<^verbatim>\<open>JSONDecodeError\<close>.
\<close>

type_synonym environ = "string \<rightharpoonup> string"

datatype pyval =
    PNone
  | PBool bool
  | PInt int
  | PStr string
  | PList "pyval list"
  | PDict "(string \<times> pyval) list"

definition startswith :: "string \<Rightarrow> string \<Rightarrow> bool" where
  "startswith s p = (take (length p) s = p)"

definition endswith :: "string \<Rightarrow> string \<Rightarrow> bool" where
  "endswith s p = (length p \<le> length s \<and> drop (length s - length p) s = p)"

text \<open>\<^verbatim>\<open>s.replace(old, new)\<close>: every occurrence, left to right, without overlap.\<close>

function str_replace :: "string \<Rightarrow> string \<Rightarrow> string \<Rightarrow> string" where
  "str_replace old new [] = (if old = [] then new else [])"
| "str_replace old new (c # cs) =
     (if old = [] then new @ c # str_replace old new cs
      else if startswith (c # cs) old then new @ str_replace old new (drop (length old) (c # cs))
      else c # str_replace old new cs)"
  by pat_completeness auto
termination
  by (relation "measure (\<lambda>(old, new, s). length s)") auto

text \<open>\<^verbatim>\<open>s.split(sep)\<close> for a separator of one character, and \<^verbatim>\<open>s.strip()\<close> on ASCII.\<close>

fun split_on :: "char \<Rightarrow> string \<Rightarrow> string list" where
  "split_on sep [] = [[]]"
| "split_on sep (c # cs) =
     (if c = sep then [] # split_on sep cs
      else (case split_on sep cs of
              [] \<Rightarrow> [[c]]
            | w # ws \<Rightarrow> (c # w) # ws))"

definition is_space :: "char \<Rightarrow> bool" where
  "is_space c =
     (c \<in> set [CHR '' '', CHR 0x09, CHR 0x0A, CHR 0x0B, CHR 0x0C, CHR 0x0D,
               CHR 0x1C, CHR 0x1D, CHR 0x1E, CHR 0x1F])"

definition strip :: "string \<Rightarrow> string" where
  "strip s = rev (dropWhile is_space (rev (dropWhile is_space s)))"

subsection \<open>SecretsManager and SSMConfig\<close>

record secrets_manager =
  secrets_test :: bool

definition SecretsManager_init :: "environ \<Rightarrow> bool \<Rightarrow> secrets_manager" where
  "SecretsManager_init environ test =
     \<lparr>secrets_test =
        (if \<not> test
         then (if environ ''STAGE'' = Some ''test'' \<or> environ ''autotest'' = Some ''True''
               then True else False)
         else test)\<rparr>"

record ssm_config =
  ssm_test :: bool

definition SSMConfig_init :: "environ \<Rightarrow> bool \<Rightarrow> ssm_config" where
  "SSMConfig_init environ test =
     \<lparr>ssm_test =
        (if \<not> test
         then (if environ ''STAGE'' = Some ''test'' \<or> environ ''autotest'' = Some ''True''
               then True else False)
         else test)\<rparr>"

text \<open>
  The SSM service. A parameter of a response has a name, a type and a value (\<open>None\<close>
  when the response carries no \<^verbatim>\<open>'Value'\<close>); a response has the key
  \<^verbatim>\<open>'Parameters'\<close> or not. The client answers \<^verbatim>\<open>get_parameters\<close>, and
  \<open>paginated\<close> stands for \<^verbatim>\<open>call_boto_with_pagination\<close> on the two requests that
  \<^verbatim>\<open>get_credentials_by_prefix\<close> sends through it: the pages of the answer.
\<close>

record ssm_parameter =
  param_name :: string
  param_type :: string
  param_value :: "string option"

record ssm_response =
  parameters :: "ssm_parameter list option"

datatype ssm_request =
    DescribeParameters string string
  | GetParameters "string list" bool

record ssm_client =
  get_parameters :: "string list \<Rightarrow> bool \<Rightarrow> error + ssm_response"
  paginated :: "ssm_request \<Rightarrow> error + ssm_response list"

text \<open>
  \<^verbatim>\<open>SSMConfig.get_config\<close>. A failure of the call with decryption is answered by the
  call without. The \<^verbatim>\<open>except\<close> clause around \<^verbatim>\<open>json.loads\<close> lists \<^verbatim>\<open>KeyError\<close>,
  \<^verbatim>\<open>IndexError\<close> and \<^verbatim>\<open>TypeError\<close>, so a missing key and an empty list give the
  empty dict, and a \<^verbatim>\<open>JSONDecodeError\<close> (a \<^verbatim>\<open>ValueError\<close>) is not caught.
\<close>

definition SSMConfig_get_config ::
  "(string \<Rightarrow> pyval option) \<Rightarrow> ssm_client \<Rightarrow> string \<Rightarrow> error + pyval" where
  "SSMConfig_get_config json_loads ssm name =
     (case (case get_parameters ssm [name] True of
              Inl e \<Rightarrow> get_parameters ssm [name] False
            | Inr r \<Rightarrow> Inr r) of
        Inl e \<Rightarrow> Inl e
      | Inr response \<Rightarrow>
          (case parameters response of
             None \<Rightarrow> Inr (PDict [])
           | Some [] \<Rightarrow> Inr (PDict [])
           | Some (p # _) \<Rightarrow>
               (case param_value p of
                  None \<Rightarrow> Inr (PDict [])
                | Some text \<Rightarrow>
                    (case json_loads text of
                       None \<Rightarrow> Inl JSONDecodeError
                     | Some config \<Rightarrow> Inr config))))"

text \<open>
  \<^verbatim>\<open>[param for obj in response for param in obj['Parameters']]\<close>, and the pairs that
  one page of parameters adds to the result of \<^verbatim>\<open>get_credentials_by_prefix\<close>.
\<close>

fun all_parameters :: "ssm_response list \<Rightarrow> error + ssm_parameter list" where
  "all_parameters [] = Inr []"
| "all_parameters (obj # rest) =
     (case parameters obj of
        None \<Rightarrow> Inl KeyError
      | Some ps \<Rightarrow>
          (case all_parameters rest of
             Inl e \<Rightarrow> Inl e
           | Inr qs \<Rightarrow> Inr (ps @ qs)))"

fun ssm_entries :: "string \<Rightarrow> ssm_parameter list \<Rightarrow> error + (string \<times> pyval) list" where
  "ssm_entries prefix [] = Inr []"
| "ssm_entries prefix (x # xs) =
     (case param_value x of
        None \<Rightarrow> Inl KeyError
      | Some v \<Rightarrow>
          (case ssm_entries prefix xs of
             Inl e \<Rightarrow> Inl e
           | Inr es \<Rightarrow>
               Inr ((str_replace prefix [] (param_name x),
                     if v \<noteq> ''None'' then PStr v else PNone) # es)))"

text \<open>\<^verbatim>\<open>d.update(dict(pairs))\<close>: a later pair wins.\<close>

definition dict_update :: "(string \<rightharpoonup> pyval) \<Rightarrow> (string \<times> pyval) list \<Rightarrow> (string \<rightharpoonup> pyval)" where
  "dict_update d pairs = fold (\<lambda>(k, v) m. m(k \<mapsto> v)) pairs d"

fun ssm_chunk_loop ::
  "ssm_client \<Rightarrow> string \<Rightarrow> bool \<Rightarrow> (string \<rightharpoonup> pyval) \<Rightarrow> string list list
     \<Rightarrow> error + (string \<rightharpoonup> pyval)" where
  "ssm_chunk_loop ssm prefix decryption_required result [] = Inr result"
| "ssm_chunk_loop ssm prefix decryption_required result (chunk_of_names # rest) =
     (case paginated ssm (GetParameters chunk_of_names decryption_required) of
        Inl e \<Rightarrow> Inl e
      | Inr get_params_response \<Rightarrow>
          (case all_parameters get_params_response of
             Inl e \<Rightarrow> Inl e
           | Inr params \<Rightarrow>
               (if params \<noteq> []
                then (case ssm_entries prefix params of
                        Inl e \<Rightarrow> Inl e
                      | Inr es \<Rightarrow>
                          ssm_chunk_loop ssm prefix decryption_required
                            (dict_update result es) rest)
                else ssm_chunk_loop ssm prefix decryption_required result rest)))"

text \<open>
  \<^verbatim>\<open>SSMConfig.get_credentials_by_prefix\<close>. \<^verbatim>\<open>chunks\<close> lives in
  sosw/components/helpers.py and is an argument.
\<close>

definition SSMConfig_get_credentials_by_prefix ::
  "(string list \<Rightarrow> nat \<Rightarrow> string list list) \<Rightarrow> ssm_client \<Rightarrow> ssm_config \<Rightarrow> string
     \<Rightarrow> error + (string \<rightharpoonup> pyval)" where
  "SSMConfig_get_credentials_by_prefix chunks ssm self prefix0 =
     (let env_tag = (if \<not> ssm_test self then ''production'' else ''dev'');
          prefix = (if endswith prefix0 ''_'' then prefix0 else prefix0 @ ''_'')
      in case paginated ssm (DescribeParameters env_tag prefix) of
           Inl e \<Rightarrow> Inl e
         | Inr describe_params_response \<Rightarrow>
             (case all_parameters describe_params_response of
                Inl e \<Rightarrow> Inl e
              | Inr params \<Rightarrow>
                  (let names = map param_name params in
                   if names = [] then Inr Map.empty
                   else
                     (let decryption_required =
                            list_ex (\<lambda>param. param_type param = ''SecureString'') params
                      in ssm_chunk_loop ssm prefix decryption_required Map.empty
                           (chunks names 10)))))"

subsection \<open>DynamoConfig\<close>

text \<open>
  The adapter's \<^verbatim>\<open>config['dynamo_client_config']\<close> (the table name; the row mapper and
  the required fields are constants), a row of the table, and the adapter itself. The
  class \<^verbatim>\<open>DynamoDbClient\<close> lives in sosw/components/dynamo_db.py: a client is its
  configuration, and its method \<^verbatim>\<open>get_by_query\<close> is an argument of the functions
  that call it, taking the client, the keys \<^verbatim>\<open>env\<close> and \<^verbatim>\<open>config_name\<close> and whether
  the comparison \<^verbatim>\<open>begins_with\<close> is asked for.
\<close>

record dynamo_client_config =
  table_name :: string

record dynamo_row =
  row_env :: string
  config_name :: string
  config_value :: "string option"

record dynamo_config =
  dynamo_test :: bool
  client_config :: dynamo_client_config
  dynamo_client :: "dynamo_client_config option"

type_synonym get_by_query = "dynamo_client_config \<Rightarrow> string \<Rightarrow> string \<Rightarrow> bool \<Rightarrow> dynamo_row list"

text \<open>
  \<^verbatim>\<open>DynamoConfig.__init__(**kwargs)\<close>: the custom configuration \<^verbatim>\<open>kwargs['config']\<close>
  replaces the default entry when it has the key \<^verbatim>\<open>'dynamo_client_config'\<close>.
\<close>

definition DynamoConfig_init ::
  "environ \<Rightarrow> bool \<Rightarrow> (string \<rightharpoonup> dynamo_client_config) \<Rightarrow> dynamo_config" where
  "DynamoConfig_init environ test config =
     (let self_test =
            (if \<not> test
             then (if environ ''STAGE'' = Some ''test'' \<or> environ ''autotest'' = Some ''True''
                   then True else False)
             else test);
          default = \<lparr>table_name = (if \<not> self_test then ''config'' else ''autotest_config'')\<rparr>
      in \<lparr>dynamo_test = self_test,
          client_config =
            (case config ''dynamo_client_config'' of None \<Rightarrow> default | Some c \<Rightarrow> c),
          dynamo_client = None\<rparr>)"

definition get_dynamo_client :: "dynamo_config \<Rightarrow> dynamo_client_config \<times> dynamo_config" where
  "get_dynamo_client self =
     (case dynamo_client self of
        Some client \<Rightarrow> (client, self)
      | None \<Rightarrow>
          (let dynamo_cfg =
                 (if dynamo_test self
                  then (client_config self)\<lparr>table_name := ''autotest_config_component''\<rparr>
                  else client_config self)
           in (dynamo_cfg, self\<lparr>client_config := dynamo_cfg, dynamo_client := Some dynamo_cfg\<rparr>)))"

text \<open>
  \<^verbatim>\<open>DynamoConfig.get_config(name, env)\<close>. \<^verbatim>\<open>json.loads(None)\<close> raises and any
  exception is caught: the raw text is returned, or the empty dict when there is none.
\<close>

definition DynamoConfig_get_config ::
  "(string \<Rightarrow> pyval option) \<Rightarrow> get_by_query \<Rightarrow> environ \<Rightarrow> dynamo_config \<Rightarrow> string \<Rightarrow> string
     \<Rightarrow> pyval \<times> dynamo_config" where
  "DynamoConfig_get_config json_loads get_by_query environ self name env =
     (case get_dynamo_client self of
        (client0, self1) \<Rightarrow>
          (let client =
                 (if environ ''STAGE'' = Some ''test'' \<or> environ ''autotest'' = Some ''True''
                  then client0\<lparr>table_name := ''autotest_config''\<rparr>
                  else client0);
               items = get_by_query client env name False;
               cfg_value = (case items of [] \<Rightarrow> None | item # _ \<Rightarrow> config_value item)
           in ((case cfg_value of
                  None \<Rightarrow> PDict []
                | Some text \<Rightarrow>
                    (case json_loads text of
                       Some v \<Rightarrow> v
                     | None \<Rightarrow> PStr text)),
               self1\<lparr>dynamo_client := Some client\<rparr>)))"

text \<open>
  The loop of \<^verbatim>\<open>DynamoConfig.get_credentials_by_prefix\<close> over the rows: the value is
  parsed as JSON when it parses and kept as it is otherwise; a row without
  \<^verbatim>\<open>'config_value'\<close> raises \<^verbatim>\<open>KeyError\<close> at the assignment.
\<close>

fun dynamo_rows_loop ::
  "(string \<Rightarrow> pyval option) \<Rightarrow> string \<Rightarrow> (string \<rightharpoonup> pyval) \<Rightarrow> dynamo_row list
     \<Rightarrow> error + (string \<rightharpoonup> pyval)" where
  "dynamo_rows_loop json_loads prefix res [] = Inr res"
| "dynamo_rows_loop json_loads prefix res (row # rest) =
     (case config_value row of
        None \<Rightarrow> Inl KeyError
      | Some text \<Rightarrow>
          dynamo_rows_loop json_loads prefix
            (res(str_replace prefix [] (config_name row) \<mapsto>
                   (case json_loads text of Some v \<Rightarrow> v | None \<Rightarrow> PStr text)))
            rest)"

definition DynamoConfig_get_credentials_by_prefix ::
  "(string \<Rightarrow> pyval option) \<Rightarrow> get_by_query \<Rightarrow> dynamo_config \<Rightarrow> string \<Rightarrow> string
     \<Rightarrow> (error + (string \<rightharpoonup> pyval)) \<times> dynamo_config" where
  "DynamoConfig_get_credentials_by_prefix json_loads get_by_query self prefix0 env0 =
     (let prefix = (if endswith prefix0 ''_'' then prefix0 else prefix0 @ ''_'');
          env = (if dynamo_test self \<or> startswith prefix ''autotest_'' then ''dev'' else env0)
      in case get_dynamo_client self of
           (client, self1) \<Rightarrow>
             (dynamo_rows_loop json_loads prefix Map.empty (get_by_query client env prefix True),
              self1))"

subsection \<open>ConfigSource\<close>

text \<open>
  The argument \<^verbatim>\<open>sources\<close> of \<^verbatim>\<open>ConfigSource.__init__\<close>: missing (or any falsy
  object), a text, or a truthy object that is no text. The resolver holds its flag
  \<^verbatim>\<open>test\<close>, its configuration, the adapters it built (the attributes
  \<^verbatim>\<open>dynamo_config\<close> and \<^verbatim>\<open>ssm_config\<close>), the name of the default source and its
  \<^verbatim>\<open>SecretsManager\<close>.
\<close>

datatype sources_arg = SourcesNone | SourcesStr string | SourcesOther

definition SUPPORTED_SOURCES :: "string list" where
  "SUPPORTED_SOURCES = [''Dynamo'', ''SSM'']"

record config_source =
  cs_test :: bool
  cs_config :: "string \<rightharpoonup> (string \<rightharpoonup> dynamo_client_config)"
  dynamo_adapter :: "dynamo_config option"
  ssm_adapter :: "ssm_config option"
  default_source :: "string option"
  secrets_manager_class :: secrets_manager

text \<open>
  The loop of \<^verbatim>\<open>__init__\<close> over the sources, which are supported ones by then;
  \<open>init_source\<close> is its body. Each adapter is built with \<^verbatim>\<open>test=self.test\<close> and its
  entry of the configuration (\<^verbatim>\<open>'dynamo_config'\<close> or \<^verbatim>\<open>'ssm_config'\<close>, the empty
  dict by default), and the first one becomes the default source.
\<close>

definition init_source :: "environ \<Rightarrow> config_source \<Rightarrow> string \<Rightarrow> config_source" where
  "init_source environ self source =
     (let self1 =
            (if source = ''Dynamo''
             then self\<lparr>dynamo_adapter :=
                    Some (DynamoConfig_init environ (cs_test self)
                            (case cs_config self ''dynamo_config'' of
                               None \<Rightarrow> Map.empty
                             | Some cfg \<Rightarrow> cfg))\<rparr>
             else self\<lparr>ssm_adapter := Some (SSMConfig_init environ (cs_test self))\<rparr>)
      in if default_source self1 = None then self1\<lparr>default_source := Some source\<rparr>
         else self1)"

fun init_sources :: "environ \<Rightarrow> config_source \<Rightarrow> string list \<Rightarrow> config_source" where
  "init_sources environ self [] = self"
| "init_sources environ self (source # rest) =
     init_sources environ (init_source environ self source) rest"

text \<open>
  \<^verbatim>\<open>ConfigSource.__init__(test, sources, config)\<close>. The first assignment is
  \<^verbatim>\<open>self.test = test or True if os.environ.get('STAGE') == 'test' else False\<close>, which
  Python reads as \<^verbatim>\<open>(test or True) if ... else False\<close>.
\<close>

definition ConfigSource_init ::
  "environ \<Rightarrow> bool \<Rightarrow> sources_arg \<Rightarrow> (string \<rightharpoonup> (string \<rightharpoonup> dynamo_client_config))
     \<Rightarrow> error + config_source" where
  "ConfigSource_init environ test sources config =
     (let self_test = (if environ ''STAGE'' = Some ''test'' then (test \<or> True) else False) in
      case (if sources = SourcesNone \<or> sources = SourcesStr [] then Inr [''Dynamo'']
            else (case sources of
                    SourcesStr s \<Rightarrow> Inr (map strip (split_on CHR '','' s))
                  | _ \<Rightarrow> Inl ValueError)) of
        Inl e \<Rightarrow> Inl e
      | Inr srcs \<Rightarrow>
          (if \<not> list_all (\<lambda>x. x \<in> set SUPPORTED_SOURCES) srcs then Inl AssertionError
           else Inr (init_sources environ
                       \<lparr>cs_test = self_test, cs_config = config, dynamo_adapter = None,
                        ssm_adapter = None, default_source = None,
                        secrets_manager_class = SecretsManager_init environ False\<rparr>
                       srcs)))"

text \<open>
  The facade: \<^verbatim>\<open>get_config\<close> and \<^verbatim>\<open>get_credentials_by_prefix\<close> go to the default
  source, with the default \<^verbatim>\<open>env="production"\<close> on the Dynamo adapter.
\<close>

definition ConfigSource_get_config ::
  "(string \<Rightarrow> pyval option) \<Rightarrow> ssm_client \<Rightarrow> get_by_query \<Rightarrow> environ \<Rightarrow> config_source \<Rightarrow> string
     \<Rightarrow> (error + pyval) \<times> config_source" where
  "ConfigSource_get_config json_loads ssm get_by_query environ self name =
     (if default_source self = Some ''Dynamo''
      then (case dynamo_adapter self of
              None \<Rightarrow> (Inl AttributeError, self)
            | Some d \<Rightarrow>
                (case DynamoConfig_get_config json_loads get_by_query environ d name ''production'' of
                   (v, d') \<Rightarrow> (Inr v, self\<lparr>dynamo_adapter := Some d'\<rparr>)))
      else if default_source self = Some ''SSM''
      then (case ssm_adapter self of
              None \<Rightarrow> (Inl AttributeError, self)
            | Some a \<Rightarrow> (SSMConfig_get_config json_loads ssm name, self))
      else (Inl AttributeError, self))"

definition ConfigSource_get_credentials_by_prefix ::
  "(string \<Rightarrow> pyval option) \<Rightarrow> (string list \<Rightarrow> nat \<Rightarrow> string list list) \<Rightarrow> ssm_client
     \<Rightarrow> get_by_query \<Rightarrow> config_source \<Rightarrow> string
     \<Rightarrow> (error + (string \<rightharpoonup> pyval)) \<times> config_source" where
  "ConfigSource_get_credentials_by_prefix json_loads chunks ssm get_by_query self prefix =
     (if default_source self = Some ''Dynamo''
      then (case dynamo_adapter self of
              None \<Rightarrow> (Inl AttributeError, self)
            | Some d \<Rightarrow>
                (case DynamoConfig_get_credentials_by_prefix json_loads get_by_query d prefix
                        ''production'' of
                   (r, d') \<Rightarrow> (r, self\<lparr>dynamo_adapter := Some d'\<rparr>)))
      else if default_source self = Some ''SSM''
      then (case ssm_adapter self of
              None \<Rightarrow> (Inl AttributeError, self)
            | Some a \<Rightarrow> (SSMConfig_get_credentials_by_prefix chunks ssm a prefix, self))
      else (Inl AttributeError, self))"

text \<open>
  An invariant of the loop of \<^verbatim>\<open>__init__\<close>: every adapter built so far is in test
  mode exactly when the resolver is, or the environment has one of the markers.
\<close>

definition adapters_follow :: "environ \<Rightarrow> config_source \<Rightarrow> bool" where
  "adapters_follow environ self =
     ((case dynamo_adapter self of
         None \<Rightarrow> True
       | Some d \<Rightarrow>
           dynamo_test d =
             (cs_test self \<or> environ ''STAGE'' = Some ''test''
              \<or> environ ''autotest'' = Some ''True''))
      \<and> (case ssm_adapter self of
            None \<Rightarrow> True
          | Some a \<Rightarrow>
              ssm_test a =
                (cs_test self \<or> environ ''STAGE'' = Some ''test''
                 \<or> environ ''autotest'' = Some ''True'')))"

section \<open>Example objects\<close>

text \<open>
  Concrete metrics, labourers and collaborators on which the theorems below are
  instantiated. \<open>spec_example_metric\<close> is the metric of the specification's example.
  \<open>example_make_hash\<close> stands in for \<^verbatim>\<open>make_hash\<close>.
\<close>

definition spec_example_metric :: metric where
  "spec_example_metric =
     \<lparr>details = [(''MetricName'', ''Invocations'')],
      feelings = [(0, 10), (1, 20), (2, 30)], feeling_comparison_operator = GE\<rparr>"

definition duration_metric :: metric where
  "duration_metric =
     \<lparr>details = [(''MetricName'', ''Duration'')],
      feelings = [(3, 50), (4, 25)], feeling_comparison_operator = LE\<rparr>"

definition errors_metric :: metric where
  "errors_metric =
     \<lparr>details = [(''MetricName'', ''Errors'')],
      feelings = [(1, 80), (3, 40)], feeling_comparison_operator = LE\<rparr>"

definition example_make_hash :: "details \<Rightarrow> string" where
  "example_make_hash d = concat (map (\<lambda>(k, v). k @ ''='' @ v @ '';'') d)"

definition example_cloudwatch :: "details \<Rightarrow> int" where
  "example_cloudwatch d = (if d = [(''MetricName'', ''Duration'')] then 30 else 70)"

definition example_task_manager :: task_manager where
  "example_task_manager =
     \<lparr>get_count_of_running_tasks_for_labourer = (\<lambda>lab. 2),
      get_average_labourer_duration = (\<lambda>lab. 300)\<rparr>"

definition example_labourer :: labourer where
  "example_labourer =
     \<lparr>labourer_id = ''some_function'',
      labourer_health_metrics =
        Some [(''duration'', duration_metric), (''errors'', errors_metric)]\<rparr>"

definition broken_labourer :: labourer where
  "broken_labourer =
     \<lparr>labourer_id = ''other_function'',
      labourer_health_metrics =
        Some [(''duration'', duration_metric), (''invocations'', spec_example_metric)]\<rparr>"

definition idle_labourer :: labourer where
  "idle_labourer = \<lparr>labourer_id = ''idle_function'', labourer_health_metrics = Some []\<rparr>"

definition registered_manager :: ecology_manager where
  "registered_manager =
     register_task_manager (new_ecology_manager (Some example_cloudwatch)) example_task_manager"

definition stale_manager :: ecology_manager where
  "stale_manager =
     registered_manager
       \<lparr>running_tasks := [''some_function'' \<mapsto> 7],
        health_metrics := Some [''MetricName=Duration;'' \<mapsto> 99]\<rparr>"

text \<open>
  \<open>example_json_loads\<close> agrees with \<^verbatim>\<open>json.loads\<close> on the texts of the examples:
  \<^verbatim>\<open>{}\<close> and \<^verbatim>\<open>null\<close> parse, \<^verbatim>\<open>hello world\<close> and \<^verbatim>\<open>None\<close> do not.
\<close>

definition example_json_loads :: "string \<Rightarrow> pyval option" where
  "example_json_loads text =
     (if text = ''{}'' then Some (PDict [])
      else if text = ''null'' then Some PNone
      else None)"

definition example_ssm_client :: ssm_client where
  "example_ssm_client =
     \<lparr>get_parameters =
        (\<lambda>names decrypt.
           Inr \<lparr>parameters =
                  Some (if names = [''greeting'']
                        then [\<lparr>param_name = ''greeting'', param_type = ''String'',
                               param_value = Some ''hello world''\<rparr>]
                        else [])\<rparr>),
      paginated =
        (\<lambda>request.
           Inr [\<lparr>parameters =
                   Some [\<lparr>param_name = ''db_password'', param_type = ''SecureString'',
                          param_value = Some ''None''\<rparr>]\<rparr>])\<rparr>"

definition example_get_by_query :: get_by_query where
  "example_get_by_query client env name begins_with =
     (if begins_with
      then [\<lparr>row_env = env, config_name = ''db_password'', config_value = Some ''None''\<rparr>]
      else if name = ''greeting''
      then [\<lparr>row_env = env, config_name = ''greeting'', config_value = Some ''hello world''\<rparr>]
      else [])"

section \<open>Properties of the ecology manager\<close>

subsection \<open>Threshold matching\<close>

lemma walk_feelings_first_match:
  "walk_feelings op v lt xs = Inr h \<Longrightarrow>
   h = (case find (\<lambda>(k, t). op v t) xs of Some (k, t) \<Rightarrow> k | None \<Rightarrow> 0)"
  by (induction xs arbitrary: lt) (auto split: if_splits)

lemma walk_feelings_error:
  "walk_feelings op v lt xs = Inl e \<Longrightarrow> e = ValueError"
  by (induction xs arbitrary: lt) (auto split: if_splits)

text \<open>
  The walk raises exactly when it reaches a step, none of the thresholds before it
  being satisfied by the sample, at which the operator holds between the threshold and
  the last target.
\<close>

lemma walk_feelings_raises:
  "(walk_feelings op v lt xs = Inl ValueError) =
   (\<exists>i<length xs. op (snd (xs ! i)) (if i = 0 then lt else snd (xs ! (i - 1)))
        \<and> (\<forall>j<i. \<not> op v (snd (xs ! j))))"
proof (induction xs arbitrary: lt)
  case Nil
  then show ?case by simp
next
  case (Cons x xs)
  obtain k t where x: "x = (k, t)" by (cases x)
  show ?case
  proof (cases "op t lt")
    case True
    then show ?thesis using x by auto
  next
    case False
    have "(walk_feelings op v lt (x # xs) = Inl ValueError) =
          (\<not> op v t \<and> walk_feelings op v t xs = Inl ValueError)"
      using False x by auto
    also have "\<dots> = (\<not> op v t \<and> (\<exists>i<length xs. op (snd (xs ! i)) (if i = 0 then t else snd (xs ! (i - 1)))
        \<and> (\<forall>j<i. \<not> op v (snd (xs ! j)))))"
      using Cons.IH by simp
    also have "\<dots> = (\<exists>i<length (x # xs). op (snd ((x # xs) ! i)) (if i = 0 then lt else snd ((x # xs) ! (i - 1)))
        \<and> (\<forall>j<i. \<not> op v (snd ((x # xs) ! j))))" (is "?L = ?R")
    proof
      assume ?L
      then obtain i where i: "i < length xs" "op (snd (xs ! i)) (if i = 0 then t else snd (xs ! (i - 1)))"
        "\<forall>j<i. \<not> op v (snd (xs ! j))" and nv: "\<not> op v t" by blast
      have "Suc i < length (x # xs)" using i by simp
      moreover have "op (snd ((x # xs) ! Suc i)) (if Suc i = 0 then lt else snd ((x # xs) ! (Suc i - 1)))"
        using i(2) x by (cases i) auto
      moreover have "\<forall>j<Suc i. \<not> op v (snd ((x # xs) ! j))"
        using i(3) nv x by (auto simp: less_Suc_eq_0_disj)
      ultimately show ?R by blast
    next
      assume ?R
      then obtain i where i: "i < length (x # xs)"
        "op (snd ((x # xs) ! i)) (if i = 0 then lt else snd ((x # xs) ! (i - 1)))"
        "\<forall>j<i. \<not> op v (snd ((x # xs) ! j))" by blast
      from i(2) False x obtain i' where i': "i = Suc i'" by (cases i) auto
      have "\<not> op v t" using i(3) i' x by auto
      moreover have "i' < length xs" using i(1) i' by simp
      moreover have "op (snd (xs ! i')) (if i' = 0 then t else snd (xs ! (i' - 1)))"
        using i(2) i' x by (cases i') auto
      moreover have "\<forall>j<i'. \<not> op v (snd (xs ! j))"
        using i(3) i' by auto
      ultimately show ?L by blast
    qed
    finally show ?thesis .
  qed
qed

lemma spec_example_raises: "get_health v spec_example_metric = Inl ValueError"
  by (simp add: get_health_def spec_example_metric_def ordered_feelings_def)

lemma ordered_duration: "ordered_feelings (feelings duration_metric) = [(4, 25), (3, 50)]"
  by (simp add: duration_metric_def ordered_feelings_def)

lemma ordered_errors: "ordered_feelings (feelings errors_metric) = [(3, 40), (1, 80)]"
  by (simp add: errors_metric_def ordered_feelings_def)

lemma duration_metric_10: "get_health 10 duration_metric = Inr 4"
  by (simp add: get_health_def ordered_duration) (simp add: duration_metric_def)

lemma duration_metric_30: "get_health 30 duration_metric = Inr 3"
  by (simp add: get_health_def ordered_duration) (simp add: duration_metric_def)

lemma errors_metric_70: "get_health 70 errors_metric = Inr 1"
  by (simp add: get_health_def ordered_errors) (simp add: errors_metric_def)

subsection \<open>The sample cache and the loop over the metrics\<close>


lemma max_status: "Max (set (map fst ECO_STATUSES)) = 4"
  by (simp add: ECO_STATUSES_def)

lemma metric_value_hit:
  "cached s (mh (details m)) = Some v \<Longrightarrow> metric_value mh s m = (Inr v, s)"
  by (auto simp: metric_value_def cached_def split: option.splits)

lemma metric_value_Inl:
  "metric_value mh s m = (Inl e, s') \<Longrightarrow> s' = s"
  by (auto simp: metric_value_def fetch_metric_stats_def Let_def split: option.splits)

lemma metric_value_Inr:
  "metric_value mh s m = (Inr v, s') \<Longrightarrow>
   cached s' (mh (details m)) = Some v \<and> cached s \<subseteq>\<^sub>m cached s'"
  by (auto simp: metric_value_def fetch_metric_stats_def Let_def cached_def map_le_def
      split: option.splits)

lemma metric_value_mono:
  "metric_value mh s m = (r, s') \<Longrightarrow> cached s \<subseteq>\<^sub>m cached s'"
  by (cases r) (auto dest: metric_value_Inl metric_value_Inr)

lemma health_loop_mono:
  "health_loop mh s h ms = (r, s') \<Longrightarrow> cached s \<subseteq>\<^sub>m cached s'"
proof (induction ms arbitrary: s h)
  case Nil
  then show ?case by simp
next
  case (Cons m ms)
  obtain r1 s1 where mv: "metric_value mh s m = (r1, s1)" by (cases "metric_value mh s m")
  have le1: "cached s \<subseteq>\<^sub>m cached s1" using mv by (rule metric_value_mono)
  show ?case
  proof (cases r1)
    case (Inl e)
    then show ?thesis using Cons.prems mv le1 by simp
  next
    case (Inr v)
    show ?thesis
    proof (cases "get_health v m")
      case (Inl e)
      then show ?thesis using Cons.prems mv Inr le1 by simp
    next
      case (Inr hm)
      then have "health_loop mh s1 (min h hm) ms = (r, s')"
        using Cons.prems mv \<open>r1 = Inr v\<close> by simp
      then have "cached s1 \<subseteq>\<^sub>m cached s'" by (rule Cons.IH)
      then show ?thesis using le1 by (rule map_le_trans[rotated])
    qed
  qed
qed

lemma health_loop_append:
  "health_loop mh s h (xs @ ys) =
   (case health_loop mh s h xs of
      (Inl e, s') \<Rightarrow> (Inl e, s')
    | (Inr h', s') \<Rightarrow> health_loop mh s' h' ys)"
  by (induction xs arbitrary: s h) (auto split: prod.splits sum.splits)

lemma health_loop_again:
  "health_loop mh s h ms = (r, s') \<Longrightarrow> health_loop mh s' h ms = (r, s')"
proof (induction ms arbitrary: s h)
  case Nil
  then show ?case by simp
next
  case (Cons m ms)
  obtain r1 s1 where mv: "metric_value mh s m = (r1, s1)" by (cases "metric_value mh s m")
  show ?case
  proof (cases r1)
    case (Inl e)
    then have "s1 = s" "r = Inl e" "s' = s" using mv Cons.prems metric_value_Inl by auto
    then show ?thesis using mv Inl by simp
  next
    case (Inr v)
    have c1: "cached s1 (mh (details m)) = Some v" using mv Inr metric_value_Inr by blast
    show ?thesis
    proof (cases "get_health v m")
      case (Inl e)
      then have "s' = s1" "r = Inl e" using Cons.prems mv Inr by auto
      then show ?thesis using c1 Inl by (simp add: metric_value_hit)
    next
      case (Inr hm)
      then have run: "health_loop mh s1 (min h hm) ms = (r, s')"
        using Cons.prems mv \<open>r1 = Inr v\<close> by simp
      then have "cached s1 \<subseteq>\<^sub>m cached s'" by (rule health_loop_mono)
      then have "cached s' (mh (details m)) = Some v"
        using c1 by (auto simp: map_le_def dom_def)
      then have "metric_value mh s' m = (Inr v, s')" by (rule metric_value_hit)
      then show ?thesis using Inr Cons.IH[OF run] by simp
    qed
  qed
qed

lemma health_loop_min:
  "health_loop mh s h ms = (Inr h', s') \<Longrightarrow>
   \<exists>hs. list_all2 (\<lambda>m hm. \<exists>v. cached s' (mh (details m)) = Some v \<and> get_health v m = Inr hm) ms hs
        \<and> h' = Min (insert h (set hs))"
proof (induction ms arbitrary: s h)
  case Nil
  then show ?case by simp
next
  case (Cons m ms)
  obtain r1 s1 where mv: "metric_value mh s m = (r1, s1)" by (cases "metric_value mh s m")
  from Cons.prems mv obtain v where r1: "r1 = Inr v" by (cases r1) auto
  from Cons.prems mv r1 obtain hm where gh: "get_health v m = Inr hm"
    by (cases "get_health v m") auto
  have run: "health_loop mh s1 (min h hm) ms = (Inr h', s')"
    using Cons.prems mv r1 gh by simp
  from Cons.IH[OF run] obtain hs where
    hs: "list_all2 (\<lambda>m hm. \<exists>v. cached s' (mh (details m)) = Some v \<and> get_health v m = Inr hm) ms hs"
    and h': "h' = Min (insert (min h hm) (set hs))" by blast
  have "cached s1 (mh (details m)) = Some v" using mv r1 metric_value_Inr by blast
  moreover have "cached s1 \<subseteq>\<^sub>m cached s'" using run by (rule health_loop_mono)
  ultimately have cv: "cached s' (mh (details m)) = Some v"
    by (auto simp: map_le_def dom_def)
  have "list_all2 (\<lambda>m hm. \<exists>v. cached s' (mh (details m)) = Some v \<and> get_health v m = Inr hm)
          (m # ms) (hm # hs)"
    using hs cv gh by simp
  moreover have "h' = Min (insert h (set (hm # hs)))"
  proof -
    have "Min (insert (min h hm) (set hs)) = Min (insert h (insert hm (set hs)))"
      by (cases "set hs = {}") (simp_all add: min.assoc)
    then show ?thesis using h' by simp
  qed
  ultimately show ?case by blast
qed

lemma example_details:
  "details duration_metric = [(''MetricName'', ''Duration'')]"
  "details errors_metric = [(''MetricName'', ''Errors'')]"
  "details spec_example_metric = [(''MetricName'', ''Invocations'')]"
  by (simp_all add: duration_metric_def errors_metric_def spec_example_metric_def)

lemma run_example:
  "get_labourer_status example_make_hash registered_manager example_labourer =
     (Inr 1,
      registered_manager
        \<lparr>health_metrics :=
           Some [''MetricName=Duration;'' \<mapsto> 30, ''MetricName=Errors;'' \<mapsto> 70],
         ext_calls :=
           [GetMetricStatistics [(''MetricName'', ''Duration'')],
            GetMetricStatistics [(''MetricName'', ''Errors'')]]\<rparr>)"
  by (simp add: get_labourer_status_def ECO_STATUSES_def labourer_metrics_def example_labourer_def
      metric_value_def fetch_metric_stats_def registered_manager_def register_task_manager_def
      new_ecology_manager_def example_make_hash_def example_cloudwatch_def
      duration_metric_30 errors_metric_70 example_details)

lemma run_broken:
  "get_labourer_status example_make_hash registered_manager broken_labourer =
     (Inl ValueError,
      registered_manager
        \<lparr>health_metrics :=
           Some [''MetricName=Duration;'' \<mapsto> 30, ''MetricName=Invocations;'' \<mapsto> 70],
         ext_calls :=
           [GetMetricStatistics [(''MetricName'', ''Duration'')],
            GetMetricStatistics [(''MetricName'', ''Invocations'')]]\<rparr>)"
  by (simp add: get_labourer_status_def ECO_STATUSES_def labourer_metrics_def broken_labourer_def
      metric_value_def fetch_metric_stats_def registered_manager_def register_task_manager_def
      new_ecology_manager_def example_make_hash_def example_cloudwatch_def
      duration_metric_30 spec_example_raises example_details)


subsection \<open>Claims about the ecology manager\<close>

text \<open>
  C1 (amended). When \<^verbatim>\<open>get_health\<close> returns, it returns the first ordinal, in
  descending order, whose threshold satisfies \<^verbatim>\<open>operator(sample, threshold)\<close>, and 0
  when no threshold does. On the metric with feelings \<^verbatim>\<open>{0:10, 1:20, 2:30}\<close> and
  operator \<^verbatim>\<open>>=\<close> it does not return: for the samples 25, 35 and 5 it raises the
  \<^verbatim>\<open>ValueError\<close> of the validation, since \<^verbatim>\<open>30 >= 0\<close> holds at the first step.
\<close>

theorem get_health_first_match:
  "(get_health v m = Inr h \<longrightarrow>
      h = (case find (\<lambda>(k, t). operator_fn (feeling_comparison_operator m) v t)
                 (ordered_feelings (feelings m)) of
             Some (k, t) \<Rightarrow> k
           | None \<Rightarrow> 0))
   \<and> get_health 25 spec_example_metric = Inl ValueError
   \<and> get_health 35 spec_example_metric = Inl ValueError
   \<and> get_health 5 spec_example_metric = Inl ValueError"
  using walk_feelings_first_match[of "operator_fn (feeling_comparison_operator m)" v 0
      "ordered_feelings (feelings m)" h]
  by (simp add: get_health_def[of v m] spec_example_raises)

theorem get_health_first_match_witness:
  "get_health 30 duration_metric = Inr 3
   \<and> ordered_feelings (feelings duration_metric) = [(4, 25), (3, 50)]
   \<and> 3 = (case find (\<lambda>(k, t). operator_fn (feeling_comparison_operator duration_metric) 30 t)
                 (ordered_feelings (feelings duration_metric)) of
             Some (k, t) \<Rightarrow> k
           | None \<Rightarrow> (0::int))"
  using get_health_first_match[of 30 duration_metric 3] duration_metric_30 ordered_duration
  by simp

text \<open>
  C1 as stated fails: on the specification's own example, sample 25 does not give 1.
\<close>

theorem get_health_spec_example_counterexample:
  "get_health 25 spec_example_metric = Inl ValueError
   \<and> get_health 25 spec_example_metric \<noteq> Inr 1"
  by (simp add: spec_example_raises)

text \<open>
  C2 (amended). With \<open>fs\<close> the thresholds from the highest ordinal to the lowest and
  the last target starting at 0, \<^verbatim>\<open>get_health\<close> raises exactly when
  \<^verbatim>\<open>operator(currentThreshold, lastTarget)\<close> holds at a step that the walk reaches,
  that is, a step before which no threshold was satisfied by the sample; the error is
  a \<^verbatim>\<open>ValueError\<close>. When it is raised for a metric of a labourer that the loop of
  \<^verbatim>\<open>get_labourer_status\<close> reaches, \<^verbatim>\<open>get_labourer_status\<close> raises it and returns no
  status.
\<close>

theorem get_health_raises_iff:
  assumes fs: "fs = ordered_feelings (feelings m)"
    and op: "op = operator_fn (feeling_comparison_operator m)"
  shows "((\<exists>e. get_health v m = Inl e) =
            (\<exists>i<length fs. op (snd (fs ! i)) (if i = 0 then 0 else snd (fs ! (i - 1)))
                 \<and> (\<forall>j<i. \<not> op v (snd (fs ! j)))))
         \<and> (\<forall>e. get_health v m = Inl e \<longrightarrow> e = ValueError)
         \<and> (\<forall>e pre post h s1 s2.
               labourer_metrics lab = pre @ m # post \<longrightarrow>
               health_loop make_hash s (Max (set (map fst ECO_STATUSES))) pre = (Inr h, s1) \<longrightarrow>
               metric_value make_hash s1 m = (Inr v, s2) \<longrightarrow>
               get_health v m = Inl e \<longrightarrow>
               get_labourer_status make_hash s lab = (Inl e, s2))"
proof (intro conjI allI impI)
  have only: "\<And>e. get_health v m = Inl e \<Longrightarrow> e = ValueError"
    unfolding get_health_def by (rule walk_feelings_error)
  then have "(\<exists>e. get_health v m = Inl e) = (get_health v m = Inl ValueError)" by blast
  also have "\<dots> = (\<exists>i<length fs. op (snd (fs ! i)) (if i = 0 then 0 else snd (fs ! (i - 1)))
                 \<and> (\<forall>j<i. \<not> op v (snd (fs ! j))))"
    unfolding get_health_def fs op by (rule walk_feelings_raises)
  finally show "(\<exists>e. get_health v m = Inl e) =
            (\<exists>i<length fs. op (snd (fs ! i)) (if i = 0 then 0 else snd (fs ! (i - 1)))
                 \<and> (\<forall>j<i. \<not> op v (snd (fs ! j))))" .
  show "\<And>e. get_health v m = Inl e \<Longrightarrow> e = ValueError" by (rule only)
next
  fix e pre post h s1 s2
  assume "labourer_metrics lab = pre @ m # post"
    and "health_loop make_hash s (Max (set (map fst ECO_STATUSES))) pre = (Inr h, s1)"
    and "metric_value make_hash s1 m = (Inr v, s2)"
    and "get_health v m = Inl e"
  then show "get_labourer_status make_hash s lab = (Inl e, s2)"
    by (simp add: get_labourer_status_def health_loop_append)
qed

lemma run_duration_only:
  "health_loop example_make_hash registered_manager (Max (set (map fst ECO_STATUSES)))
     [duration_metric] =
     (Inr 3,
      registered_manager
        \<lparr>health_metrics := Some [''MetricName=Duration;'' \<mapsto> 30],
         ext_calls := [GetMetricStatistics [(''MetricName'', ''Duration'')]]\<rparr>)"
  by (simp add: ECO_STATUSES_def metric_value_def fetch_metric_stats_def registered_manager_def
      register_task_manager_def new_ecology_manager_def example_make_hash_def
      example_cloudwatch_def duration_metric_30 example_details)

lemma value_invocations:
  "metric_value example_make_hash
     (registered_manager
        \<lparr>health_metrics := Some [''MetricName=Duration;'' \<mapsto> 30],
         ext_calls := [GetMetricStatistics [(''MetricName'', ''Duration'')]]\<rparr>)
     spec_example_metric =
     (Inr 70,
      registered_manager
        \<lparr>health_metrics :=
           Some [''MetricName=Duration;'' \<mapsto> 30, ''MetricName=Invocations;'' \<mapsto> 70],
         ext_calls :=
           [GetMetricStatistics [(''MetricName'', ''Duration'')],
            GetMetricStatistics [(''MetricName'', ''Invocations'')]]\<rparr>)"
  by (simp add: metric_value_def fetch_metric_stats_def registered_manager_def
      register_task_manager_def new_ecology_manager_def example_make_hash_def
      example_cloudwatch_def example_details)

theorem get_health_raises_iff_witness:
  "(\<exists>e. get_health 70 spec_example_metric = Inl e)
   \<and> ordered_feelings (feelings spec_example_metric) = [(2, 30), (1, 20), (0, 10)]
   \<and> operator_fn (feeling_comparison_operator spec_example_metric) 30 0
   \<and> labourer_metrics broken_labourer = [duration_metric] @ spec_example_metric # []
   \<and> get_labourer_status example_make_hash registered_manager broken_labourer =
       (Inl ValueError,
        registered_manager
          \<lparr>health_metrics :=
             Some [''MetricName=Duration;'' \<mapsto> 30, ''MetricName=Invocations;'' \<mapsto> 70],
           ext_calls :=
             [GetMetricStatistics [(''MetricName'', ''Duration'')],
              GetMetricStatistics [(''MetricName'', ''Invocations'')]]\<rparr>)"
proof -
  have ms: "labourer_metrics broken_labourer = [duration_metric] @ spec_example_metric # []"
    by (simp add: labourer_metrics_def broken_labourer_def)
  have fs: "ordered_feelings (feelings spec_example_metric) = [(2, 30), (1, 20), (0, 10)]"
    by (simp add: spec_example_metric_def ordered_feelings_def)
  have op: "operator_fn (feeling_comparison_operator spec_example_metric) 30 0"
    by (simp add: spec_example_metric_def)
  note inst = get_health_raises_iff[OF refl refl, of 70 spec_example_metric broken_labourer
      example_make_hash registered_manager]
  from inst have "get_labourer_status example_make_hash registered_manager broken_labourer =
       (Inl ValueError,
        registered_manager
          \<lparr>health_metrics :=
             Some [''MetricName=Duration;'' \<mapsto> 30, ''MetricName=Invocations;'' \<mapsto> 70],
           ext_calls :=
             [GetMetricStatistics [(''MetricName'', ''Duration'')],
              GetMetricStatistics [(''MetricName'', ''Invocations'')]]\<rparr>)"
    using ms run_duration_only value_invocations spec_example_raises[of 70] by blast
  then show ?thesis using ms fs op spec_example_raises[of 70] by simp
qed

text \<open>
  C2 as stated fails: on \<open>duration_metric\<close> the operator does not hold between the
  first threshold 25 and the seed 0, and \<^verbatim>\<open>get_health\<close> raises nothing: it returns 4.
\<close>

theorem get_health_raises_counterexample:
  "ordered_feelings (feelings duration_metric) = [(4, 25), (3, 50)]
   \<and> \<not> operator_fn (feeling_comparison_operator duration_metric) 25 0
   \<and> get_health 10 duration_metric = Inr 4"
  using ordered_duration duration_metric_10 by (simp add: duration_metric_def)

text \<open>
  C6. When \<^verbatim>\<open>get_labourer_status\<close> returns a status, every metric of the labourer
  has a sample in the cache and a status on it, and the status returned is the minimum
  of 4 (High) and these per-metric statuses; without metrics it is 4.
\<close>

theorem get_labourer_status_minimum:
  "(get_labourer_status make_hash s lab = (Inr h, s') \<longrightarrow>
      (\<exists>hs. list_all2
               (\<lambda>m hm. \<exists>v. cached s' (make_hash (details m)) = Some v \<and> get_health v m = Inr hm)
               (labourer_metrics lab) hs
            \<and> h = Min (insert 4 (set hs))))
   \<and> (labourer_metrics lab = [] \<longrightarrow> get_labourer_status make_hash s lab = (Inr 4, s))"
  using health_loop_min[of make_hash s 4 "labourer_metrics lab" h s']
  by (simp add: get_labourer_status_def[of make_hash s lab] max_status del: set_map)

theorem get_labourer_status_minimum_witness:
  "fst (get_labourer_status example_make_hash registered_manager example_labourer) = Inr 1
   \<and> labourer_metrics example_labourer = [duration_metric, errors_metric]
   \<and> get_health 30 duration_metric = Inr 3
   \<and> get_health 70 errors_metric = Inr 1
   \<and> (\<exists>hs. list_all2
              (\<lambda>m hm. \<exists>v. cached
                              (snd (get_labourer_status example_make_hash registered_manager
                                      example_labourer))
                              (example_make_hash (details m)) = Some v
                          \<and> get_health v m = Inr hm)
              (labourer_metrics example_labourer) hs
           \<and> (1::int) = Min (insert 4 (set hs)))
   \<and> labourer_metrics idle_labourer = []
   \<and> get_labourer_status example_make_hash registered_manager idle_labourer =
       (Inr 4, registered_manager)"
proof -
  have idle: "labourer_metrics idle_labourer = []"
    by (simp add: labourer_metrics_def idle_labourer_def)
  have ms: "labourer_metrics example_labourer = [duration_metric, errors_metric]"
    by (simp add: labourer_metrics_def example_labourer_def)
  obtain s' where run:
    "get_labourer_status example_make_hash registered_manager example_labourer = (Inr 1, s')"
    using run_example by blast
  have c1: "fst (get_labourer_status example_make_hash registered_manager example_labourer) = Inr 1"
    using run by simp
  have s': "snd (get_labourer_status example_make_hash registered_manager example_labourer) = s'"
    using run by simp
  have c5: "\<exists>hs. list_all2
              (\<lambda>m hm. \<exists>v. cached s' (example_make_hash (details m)) = Some v
                          \<and> get_health v m = Inr hm)
              (labourer_metrics example_labourer) hs
           \<and> (1::int) = Min (insert 4 (set hs))"
    using get_labourer_status_minimum[of example_make_hash registered_manager example_labourer 1 s']
      run by blast
  have c7: "get_labourer_status example_make_hash registered_manager idle_labourer =
       (Inr 4, registered_manager)"
    using get_labourer_status_minimum[of example_make_hash registered_manager idle_labourer]
      idle by blast
  show ?thesis
    unfolding s' using c1 ms duration_metric_30 errors_metric_70 c5 idle c7
    by (intro conjI)
qed

text \<open>
  C7. With the cache initialised and a metrics client present, the sample of a metric
  is obtained without error; when the hash of its details is not in the cache, exactly
  one call goes out and its result is stored under the hash, and when the hash is in
  the cache no call goes out and the cached sample is returned. Asking again for any
  metric with the same hash changes nothing and makes no call, until
  \<^verbatim>\<open>register_task_manager\<close> resets the cache, after which the next request calls
  out again. Evaluating a labourer a second time likewise gives the same result and
  leaves the manager, the record of calls included, as it was.
\<close>

theorem metric_value_fetches_once:
  assumes "health_metrics s = Some c" and "cloudwatch_client s = Some cw"
  shows "\<exists>v s1. metric_value make_hash s m = (Inr v, s1)
           \<and> v = (case c (make_hash (details m)) of Some u \<Rightarrow> u | None \<Rightarrow> cw (details m))
           \<and> ext_calls s1 =
               ext_calls s @ (case c (make_hash (details m)) of
                                Some u \<Rightarrow> []
                              | None \<Rightarrow> [GetMetricStatistics (details m)])
           \<and> health_metrics s1 = Some (c(make_hash (details m) \<mapsto> v))
           \<and> (\<forall>m'. make_hash (details m') = make_hash (details m) \<longrightarrow>
                  metric_value make_hash s1 m' = (Inr v, s1))
           \<and> ext_calls (snd (metric_value make_hash (register_task_manager s1 tm) m)) =
               ext_calls s1 @ [GetMetricStatistics (details m)]
           \<and> (\<forall>lab r s2. get_labourer_status make_hash s lab = (r, s2) \<longrightarrow>
                  get_labourer_status make_hash s2 lab = (r, s2))"
proof (cases "c (make_hash (details m))")
  case None
  let ?v = "cw (details m)"
  let ?s1 = "s\<lparr>ext_calls := ext_calls s @ [GetMetricStatistics (details m)],
               health_metrics := Some (c(make_hash (details m) \<mapsto> ?v))\<rparr>"
  have run: "metric_value make_hash s m = (Inr ?v, ?s1)"
    using assms None by (simp add: metric_value_def fetch_metric_stats_def)
  have again: "\<forall>m'. make_hash (details m') = make_hash (details m) \<longrightarrow>
                 metric_value make_hash ?s1 m' = (Inr ?v, ?s1)"
    by (simp add: metric_value_def)
  have reset: "ext_calls (snd (metric_value make_hash (register_task_manager ?s1 tm) m)) =
                 ext_calls ?s1 @ [GetMetricStatistics (details m)]"
    using assms by (simp add: metric_value_def fetch_metric_stats_def register_task_manager_def)
  have lab: "\<forall>lab r s2. get_labourer_status make_hash s lab = (r, s2) \<longrightarrow>
               get_labourer_status make_hash s2 lab = (r, s2)"
    by (simp add: get_labourer_status_def health_loop_again)
  show ?thesis
  proof (rule exI[of _ ?v], rule exI[of _ ?s1], intro conjI)
    show "metric_value make_hash s m = (Inr ?v, ?s1)" by (rule run)
    show "?v = (case c (make_hash (details m)) of Some u \<Rightarrow> u | None \<Rightarrow> cw (details m))"
      using None by simp
    show "ext_calls ?s1 =
            ext_calls s @ (case c (make_hash (details m)) of
                             Some u \<Rightarrow> []
                           | None \<Rightarrow> [GetMetricStatistics (details m)])"
      using None by simp
    show "health_metrics ?s1 = Some (c(make_hash (details m) \<mapsto> ?v))" by simp
    show "\<forall>m'. make_hash (details m') = make_hash (details m) \<longrightarrow>
            metric_value make_hash ?s1 m' = (Inr ?v, ?s1)" by (rule again)
    show "ext_calls (snd (metric_value make_hash (register_task_manager ?s1 tm) m)) =
            ext_calls ?s1 @ [GetMetricStatistics (details m)]" by (rule reset)
    show "\<forall>lab r s2. get_labourer_status make_hash s lab = (r, s2) \<longrightarrow>
            get_labourer_status make_hash s2 lab = (r, s2)" by (rule lab)
  qed
next
  case (Some u)
  have run: "metric_value make_hash s m = (Inr u, s)"
    using assms Some by (simp add: metric_value_def)
  have again: "\<forall>m'. make_hash (details m') = make_hash (details m) \<longrightarrow>
                 metric_value make_hash s m' = (Inr u, s)"
    using assms Some by (simp add: metric_value_def)
  have reset: "ext_calls (snd (metric_value make_hash (register_task_manager s tm) m)) =
                 ext_calls s @ [GetMetricStatistics (details m)]"
    using assms by (simp add: metric_value_def fetch_metric_stats_def register_task_manager_def)
  have lab: "\<forall>lab r s2. get_labourer_status make_hash s lab = (r, s2) \<longrightarrow>
               get_labourer_status make_hash s2 lab = (r, s2)"
    by (simp add: get_labourer_status_def health_loop_again)
  have same: "c(make_hash (details m) \<mapsto> u) = c" using Some by (rule map_upd_triv)
  show ?thesis
  proof (rule exI[of _ u], rule exI[of _ s], intro conjI)
    show "metric_value make_hash s m = (Inr u, s)" by (rule run)
    show "u = (case c (make_hash (details m)) of Some u \<Rightarrow> u | None \<Rightarrow> cw (details m))"
      using Some by simp
    show "ext_calls s =
            ext_calls s @ (case c (make_hash (details m)) of
                             Some u \<Rightarrow> []
                           | None \<Rightarrow> [GetMetricStatistics (details m)])"
      using Some by simp
    show "health_metrics s = Some (c(make_hash (details m) \<mapsto> u))"
      using assms same by simp
    show "\<forall>m'. make_hash (details m') = make_hash (details m) \<longrightarrow>
            metric_value make_hash s m' = (Inr u, s)" by (rule again)
    show "ext_calls (snd (metric_value make_hash (register_task_manager s tm) m)) =
            ext_calls s @ [GetMetricStatistics (details m)]" by (rule reset)
    show "\<forall>lab r s2. get_labourer_status make_hash s lab = (r, s2) \<longrightarrow>
            get_labourer_status make_hash s2 lab = (r, s2)" by (rule lab)
  qed
qed

theorem metric_value_fetches_once_witness:
  "health_metrics registered_manager = Some Map.empty
   \<and> cloudwatch_client registered_manager = Some example_cloudwatch
   \<and> (\<exists>v s1. metric_value example_make_hash registered_manager duration_metric = (Inr v, s1)
          \<and> v = 30
          \<and> ext_calls s1 = [GetMetricStatistics [(''MetricName'', ''Duration'')]]
          \<and> metric_value example_make_hash s1 duration_metric = (Inr v, s1))"
proof -
  have hm: "health_metrics registered_manager = Some Map.empty"
    by (simp add: registered_manager_def register_task_manager_def)
  have cw: "cloudwatch_client registered_manager = Some example_cloudwatch"
    by (simp add: registered_manager_def register_task_manager_def new_ecology_manager_def)
  have calls: "ext_calls registered_manager = []"
    by (simp add: registered_manager_def register_task_manager_def new_ecology_manager_def)
  have "\<exists>v s1. metric_value example_make_hash registered_manager duration_metric = (Inr v, s1)
          \<and> v = example_cloudwatch (details duration_metric)
          \<and> ext_calls s1 =
              ext_calls registered_manager @ [GetMetricStatistics (details duration_metric)]
          \<and> metric_value example_make_hash s1 duration_metric = (Inr v, s1)"
    using metric_value_fetches_once[OF hm cw, of example_make_hash duration_metric
        example_task_manager]
    apply (elim exE conjE)
    subgoal for v s1
      by (rule exI[of _ v], rule exI[of _ s1]) simp
    done
  then show ?thesis
    using hm cw calls by (simp add: example_details example_cloudwatch_def)
qed

lemma metric_value_calls:
  "metric_value mh s m = (r, s') \<Longrightarrow> \<exists>xs. ext_calls s' = ext_calls s @ xs"
  by (auto simp: metric_value_def fetch_metric_stats_def Let_def split: option.splits)

lemma health_loop_calls:
  "health_loop mh s h ms = (r, s') \<Longrightarrow> \<exists>xs. ext_calls s' = ext_calls s @ xs"
proof (induction ms arbitrary: s h)
  case Nil
  then show ?case by simp
next
  case (Cons m ms)
  obtain r1 s1 where mv: "metric_value mh s m = (r1, s1)" by (cases "metric_value mh s m")
  then obtain xs where xs: "ext_calls s1 = ext_calls s @ xs" using metric_value_calls by blast
  show ?case
  proof (cases r1)
    case (Inl e)
    then show ?thesis using Cons.prems mv xs by simp
  next
    case (Inr v)
    show ?thesis
    proof (cases "get_health v m")
      case (Inl e)
      then show ?thesis using Cons.prems mv Inr xs by simp
    next
      case (Inr hm)
      then have "health_loop mh s1 (min h hm) ms = (r, s')"
        using Cons.prems mv \<open>r1 = Inr v\<close> by simp
      then obtain ys where "ext_calls s' = ext_calls s1 @ ys" using Cons.IH by blast
      then show ?thesis using xs by simp
    qed
  qed
qed

text \<open>
  C8. After \<^verbatim>\<open>register_task_manager\<close> the counter cache and the sample cache are
  empty and the task client is the one registered. A count query that follows asks the
  new task manager, whatever was cached before, and a status query that follows sends
  the metrics query of the labourer's first metric to the metrics client.
\<close>

theorem register_task_manager_resets:
  "running_tasks (register_task_manager s tm) = Map.empty
   \<and> health_metrics (register_task_manager s tm) = Some Map.empty
   \<and> task_client (register_task_manager s tm) = Some tm
   \<and> count_running_tasks_for_labourer (register_task_manager s tm) lab =
       (Inr (get_count_of_running_tasks_for_labourer tm lab),
        (register_task_manager s tm)
          \<lparr>running_tasks :=
             [labourer_id lab \<mapsto> get_count_of_running_tasks_for_labourer tm lab],
           ext_calls := ext_calls s @ [GetCountOfRunningTasks (labourer_id lab)]\<rparr>)
   \<and> (\<forall>cw. cloudwatch_client s = Some cw \<longrightarrow>
         metric_value make_hash (register_task_manager s tm) m =
           (Inr (cw (details m)),
            (register_task_manager s tm)
              \<lparr>ext_calls := ext_calls s @ [GetMetricStatistics (details m)],
               health_metrics := Some [make_hash (details m) \<mapsto> cw (details m)]\<rparr>))
   \<and> (\<forall>cw ms. cloudwatch_client s = Some cw \<longrightarrow> labourer_metrics lab = m # ms \<longrightarrow>
         (\<exists>more. ext_calls (snd (get_labourer_status make_hash (register_task_manager s tm) lab)) =
                   ext_calls s @ GetMetricStatistics (details m) # more))"
proof (intro conjI allI impI)
  show "running_tasks (register_task_manager s tm) = Map.empty"
    by (simp add: register_task_manager_def)
  show "health_metrics (register_task_manager s tm) = Some Map.empty"
    by (simp add: register_task_manager_def)
  show "task_client (register_task_manager s tm) = Some tm"
    by (simp add: register_task_manager_def)
  show "count_running_tasks_for_labourer (register_task_manager s tm) lab =
       (Inr (get_count_of_running_tasks_for_labourer tm lab),
        (register_task_manager s tm)
          \<lparr>running_tasks :=
             [labourer_id lab \<mapsto> get_count_of_running_tasks_for_labourer tm lab],
           ext_calls := ext_calls s @ [GetCountOfRunningTasks (labourer_id lab)]\<rparr>)"
    by (simp add: register_task_manager_def count_running_tasks_for_labourer_def Let_def)
next
  fix cw
  assume cw: "cloudwatch_client s = Some cw"
  then show "metric_value make_hash (register_task_manager s tm) m =
           (Inr (cw (details m)),
            (register_task_manager s tm)
              \<lparr>ext_calls := ext_calls s @ [GetMetricStatistics (details m)],
               health_metrics := Some [make_hash (details m) \<mapsto> cw (details m)]\<rparr>)"
    by (simp add: register_task_manager_def metric_value_def fetch_metric_stats_def)
next
  fix cw ms
  assume cw: "cloudwatch_client s = Some cw" and ms: "labourer_metrics lab = m # ms"
  let ?s0 = "register_task_manager s tm"
  let ?s1 = "?s0\<lparr>ext_calls := ext_calls s @ [GetMetricStatistics (details m)],
                 health_metrics := Some [make_hash (details m) \<mapsto> cw (details m)]\<rparr>"
  have mv: "metric_value make_hash ?s0 m = (Inr (cw (details m)), ?s1)"
    using cw by (simp add: register_task_manager_def metric_value_def fetch_metric_stats_def)
  have "\<exists>more. ext_calls (snd (health_loop make_hash ?s0 h (m # ms))) =
                 ext_calls s @ GetMetricStatistics (details m) # more" for h
  proof (cases "get_health (cw (details m)) m")
    case (Inl e)
    then show ?thesis using mv by simp
  next
    case (Inr hm)
    obtain r s' where run: "health_loop make_hash ?s1 (min h hm) ms = (r, s')"
      by (cases "health_loop make_hash ?s1 (min h hm) ms")
    then obtain xs where "ext_calls s' = ext_calls ?s1 @ xs" using health_loop_calls by blast
    then show ?thesis using mv Inr run by simp
  qed
  then show "\<exists>more. ext_calls (snd (get_labourer_status make_hash ?s0 lab)) =
                   ext_calls s @ GetMetricStatistics (details m) # more"
    by (simp add: get_labourer_status_def ms)
qed

lemma stale_fields:
  "cloudwatch_client stale_manager = Some example_cloudwatch"
  "task_client stale_manager = Some example_task_manager"
  "running_tasks stale_manager = [''some_function'' \<mapsto> 7]"
  "health_metrics stale_manager = Some [''MetricName=Duration;'' \<mapsto> 99]"
  "ext_calls stale_manager = []"
  by (simp_all add: stale_manager_def registered_manager_def register_task_manager_def
      new_ecology_manager_def)

theorem register_task_manager_resets_witness:
  "cloudwatch_client stale_manager = Some example_cloudwatch
   \<and> labourer_metrics example_labourer = duration_metric # [errors_metric]
   \<and> fst (count_running_tasks_for_labourer stale_manager example_labourer) = Inr 7
   \<and> fst (count_running_tasks_for_labourer
            (register_task_manager stale_manager example_task_manager) example_labourer) = Inr 2
   \<and> fst (metric_value example_make_hash stale_manager duration_metric) = Inr 99
   \<and> fst (metric_value example_make_hash
            (register_task_manager stale_manager example_task_manager) duration_metric) = Inr 30
   \<and> (\<exists>more. ext_calls (snd (get_labourer_status example_make_hash
                                (register_task_manager stale_manager example_task_manager)
                                example_labourer)) =
                ext_calls stale_manager @ GetMetricStatistics (details duration_metric) # more)"
proof -
  note inst = register_task_manager_resets[of stale_manager example_task_manager
      example_labourer example_make_hash duration_metric]
  have ms: "labourer_metrics example_labourer = duration_metric # [errors_metric]"
    by (simp add: labourer_metrics_def example_labourer_def)
  have old_count: "fst (count_running_tasks_for_labourer stale_manager example_labourer) = Inr 7"
    by (simp add: count_running_tasks_for_labourer_def stale_fields example_labourer_def)
  have new_count: "fst (count_running_tasks_for_labourer
            (register_task_manager stale_manager example_task_manager) example_labourer) = Inr 2"
    using inst by (simp add: example_task_manager_def)
  have old_value: "fst (metric_value example_make_hash stale_manager duration_metric) = Inr 99"
    by (simp add: metric_value_def stale_fields example_details example_make_hash_def)
  have new_value: "fst (metric_value example_make_hash
            (register_task_manager stale_manager example_task_manager) duration_metric) = Inr 30"
    using inst stale_fields(1) by (simp add: example_cloudwatch_def example_details)
  have status: "\<exists>more. ext_calls (snd (get_labourer_status example_make_hash
                                (register_task_manager stale_manager example_task_manager)
                                example_labourer)) =
                ext_calls stale_manager @ GetMetricStatistics (details duration_metric) # more"
    using inst stale_fields(1) ms by blast
  show ?thesis
    using stale_fields(1) ms old_count new_count old_value new_value status by (intro conjI)
qed

text \<open>
  C9. \<^verbatim>\<open>count_running_tasks_for_labourer\<close> and \<^verbatim>\<open>get_labourer_average_duration\<close>
  raise exactly when no task client is set, and then they raise \<^verbatim>\<open>RuntimeError\<close> and
  change nothing. With a task client they return the cached count, or the count asked
  from the task client when none is cached, and the average duration asked from the
  task client; so they do after \<^verbatim>\<open>register_task_manager\<close>.
\<close>

theorem task_queries_need_task_manager:
  "((\<exists>e. fst (count_running_tasks_for_labourer s lab) = Inl e) = (task_client s = None))
   \<and> ((\<exists>e. fst (get_labourer_average_duration s lab) = Inl e) = (task_client s = None))
   \<and> (task_client s = None \<longrightarrow>
         count_running_tasks_for_labourer s lab = (Inl RuntimeError, s)
         \<and> get_labourer_average_duration s lab = (Inl RuntimeError, s))
   \<and> (\<forall>tc. task_client s = Some tc \<longrightarrow>
         fst (count_running_tasks_for_labourer s lab) =
           Inr (case running_tasks s (labourer_id lab) of
                  Some n \<Rightarrow> n
                | None \<Rightarrow> get_count_of_running_tasks_for_labourer tc lab)
         \<and> fst (get_labourer_average_duration s lab) =
             Inr (get_average_labourer_duration tc lab))
   \<and> fst (count_running_tasks_for_labourer (register_task_manager s tm) lab) =
       Inr (get_count_of_running_tasks_for_labourer tm lab)
   \<and> fst (get_labourer_average_duration (register_task_manager s tm) lab) =
       Inr (get_average_labourer_duration tm lab)"
proof (intro conjI allI impI)
  show "(\<exists>e. fst (count_running_tasks_for_labourer s lab) = Inl e) = (task_client s = None)"
    by (auto simp: count_running_tasks_for_labourer_def Let_def split: option.splits)
  show "(\<exists>e. fst (get_labourer_average_duration s lab) = Inl e) = (task_client s = None)"
    by (auto simp: get_labourer_average_duration_def split: option.splits)
  show "fst (count_running_tasks_for_labourer (register_task_manager s tm) lab) =
       Inr (get_count_of_running_tasks_for_labourer tm lab)"
    by (simp add: count_running_tasks_for_labourer_def register_task_manager_def Let_def)
  show "fst (get_labourer_average_duration (register_task_manager s tm) lab) =
       Inr (get_average_labourer_duration tm lab)"
    by (simp add: get_labourer_average_duration_def register_task_manager_def)
next
  assume "task_client s = None"
  then show "count_running_tasks_for_labourer s lab = (Inl RuntimeError, s)"
    and "get_labourer_average_duration s lab = (Inl RuntimeError, s)"
    by (simp_all add: count_running_tasks_for_labourer_def get_labourer_average_duration_def)
next
  fix tc
  assume tc: "task_client s = Some tc"
  then show "fst (count_running_tasks_for_labourer s lab) =
           Inr (case running_tasks s (labourer_id lab) of
                  Some n \<Rightarrow> n
                | None \<Rightarrow> get_count_of_running_tasks_for_labourer tc lab)"
    by (simp add: count_running_tasks_for_labourer_def Let_def split: option.splits)
  show "fst (get_labourer_average_duration s lab) = Inr (get_average_labourer_duration tc lab)"
    using tc by (simp add: get_labourer_average_duration_def)
qed

theorem task_queries_need_task_manager_witness:
  "task_client (new_ecology_manager None) = None
   \<and> count_running_tasks_for_labourer (new_ecology_manager None) example_labourer =
       (Inl RuntimeError, new_ecology_manager None)
   \<and> get_labourer_average_duration (new_ecology_manager None) example_labourer =
       (Inl RuntimeError, new_ecology_manager None)
   \<and> task_client stale_manager = Some example_task_manager
   \<and> fst (count_running_tasks_for_labourer stale_manager example_labourer) = Inr 7
   \<and> fst (get_labourer_average_duration stale_manager example_labourer) = Inr 300
   \<and> fst (count_running_tasks_for_labourer stale_manager idle_labourer) = Inr 2"
proof -
  have none: "task_client (new_ecology_manager None) = None"
    by (simp add: new_ecology_manager_def)
  note a = task_queries_need_task_manager[of "new_ecology_manager None" example_labourer
      example_task_manager]
  note b = task_queries_need_task_manager[of stale_manager example_labourer
      example_task_manager]
  note c = task_queries_need_task_manager[of stale_manager idle_labourer
      example_task_manager]
  have c2: "count_running_tasks_for_labourer (new_ecology_manager None) example_labourer =
       (Inl RuntimeError, new_ecology_manager None)"
    using a none by blast
  have c3: "get_labourer_average_duration (new_ecology_manager None) example_labourer =
       (Inl RuntimeError, new_ecology_manager None)"
    using a none by blast
  have c5: "fst (count_running_tasks_for_labourer stale_manager example_labourer) = Inr 7"
    using b stale_fields(2) by (simp add: stale_fields(3) example_labourer_def)
  have c6: "fst (get_labourer_average_duration stale_manager example_labourer) = Inr 300"
    using b stale_fields(2) by (simp add: example_task_manager_def)
  have c7: "fst (count_running_tasks_for_labourer stale_manager idle_labourer) = Inr 2"
    using c stale_fields(2)
    by (simp add: stale_fields(3) idle_labourer_def example_task_manager_def)
  show ?thesis using none c2 c3 stale_fields(2) c5 c6 c7 by (intro conjI)
qed

text \<open>
  C10. A new manager has no sample cache: the field is \<open>None\<close>. As long as it is,
  \<^verbatim>\<open>get_labourer_status\<close> on a labourer with at least one health metric raises
  \<^verbatim>\<open>TypeError\<close> (not the \<^verbatim>\<open>RuntimeError\<close> of a missing task manager) and changes
  nothing, and on a labourer without health metrics it returns 4.
\<close>

theorem status_before_registration:
  "health_metrics (new_ecology_manager cw) = None
   \<and> (health_metrics s = None \<longrightarrow>
         (labourer_metrics lab \<noteq> [] \<longrightarrow>
            get_labourer_status make_hash s lab = (Inl TypeError, s))
         \<and> (labourer_metrics lab = [] \<longrightarrow>
              get_labourer_status make_hash s lab = (Inr 4, s)))
   \<and> TypeError \<noteq> RuntimeError"
proof (intro conjI impI)
  show "health_metrics (new_ecology_manager cw) = None"
    by (simp add: new_ecology_manager_def)
  show "TypeError \<noteq> RuntimeError" by simp
next
  assume none: "health_metrics s = None" and ne: "labourer_metrics lab \<noteq> []"
  then obtain m ms where "labourer_metrics lab = m # ms" by (cases "labourer_metrics lab") auto
  then show "get_labourer_status make_hash s lab = (Inl TypeError, s)"
    using none by (simp add: get_labourer_status_def metric_value_def)
next
  assume "labourer_metrics lab = []"
  then show "get_labourer_status make_hash s lab = (Inr 4, s)"
    by (simp add: get_labourer_status_def[of make_hash s lab] max_status del: set_map)
qed

theorem status_before_registration_witness:
  "health_metrics (new_ecology_manager (Some example_cloudwatch)) = None
   \<and> labourer_metrics example_labourer \<noteq> []
   \<and> get_labourer_status example_make_hash (new_ecology_manager (Some example_cloudwatch))
         example_labourer =
       (Inl TypeError, new_ecology_manager (Some example_cloudwatch))
   \<and> labourer_metrics idle_labourer = []
   \<and> get_labourer_status example_make_hash (new_ecology_manager (Some example_cloudwatch))
         idle_labourer =
       (Inr 4, new_ecology_manager (Some example_cloudwatch))"
proof -
  have none: "health_metrics (new_ecology_manager (Some example_cloudwatch)) = None"
    by (simp add: new_ecology_manager_def)
  have ne: "labourer_metrics example_labourer \<noteq> []"
    by (simp add: labourer_metrics_def example_labourer_def)
  have idle: "labourer_metrics idle_labourer = []"
    by (simp add: labourer_metrics_def idle_labourer_def)
  have c3: "get_labourer_status example_make_hash (new_ecology_manager (Some example_cloudwatch))
         example_labourer =
       (Inl TypeError, new_ecology_manager (Some example_cloudwatch))"
    using status_before_registration[of "Some example_cloudwatch"
        "new_ecology_manager (Some example_cloudwatch)" example_labourer example_make_hash]
      none ne by blast
  have c5: "get_labourer_status example_make_hash (new_ecology_manager (Some example_cloudwatch))
         idle_labourer =
       (Inr 4, new_ecology_manager (Some example_cloudwatch))"
    using status_before_registration[of "Some example_cloudwatch"
        "new_ecology_manager (Some example_cloudwatch)" idle_labourer example_make_hash]
      none idle by blast
  show ?thesis using none ne c3 idle c5 by (intro conjI)
qed

section \<open>Properties of the configuration resolver\<close>

subsection \<open>Reading a configuration value\<close>

lemma DynamoConfig_get_config_value:
  "fst (DynamoConfig_get_config json_loads gbq environ self name env) =
     (case gbq (if environ ''STAGE'' = Some ''test'' \<or> environ ''autotest'' = Some ''True''
                then (fst (get_dynamo_client self))\<lparr>table_name := ''autotest_config''\<rparr>
                else fst (get_dynamo_client self)) env name False of
        [] \<Rightarrow> PDict []
      | item # _ \<Rightarrow>
          (case config_value item of
             None \<Rightarrow> PDict []
           | Some text \<Rightarrow> (case json_loads text of Some v \<Rightarrow> v | None \<Rightarrow> PStr text)))"
  by (simp add: DynamoConfig_get_config_def Let_def split: prod.splits list.splits option.splits)

lemma SSMConfig_get_config_absent:
  "get_parameters ssm [name] True = Inr \<lparr>parameters = Some []\<rparr> \<Longrightarrow>
   SSMConfig_get_config json_loads ssm name = Inr (PDict [])"
  by (simp add: SSMConfig_get_config_def)

lemma SSMConfig_get_config_parsed:
  "get_parameters ssm [name] True = Inr \<lparr>parameters = Some (p # ps)\<rparr> \<Longrightarrow>
   param_value p = Some stored \<Longrightarrow> json_loads stored = Some v \<Longrightarrow>
   SSMConfig_get_config json_loads ssm name = Inr v"
  by (simp add: SSMConfig_get_config_def)

text \<open>
  C3. On the SSM backend a stored text that does not parse as JSON makes
  \<^verbatim>\<open>get_config\<close> raise \<^verbatim>\<open>JSONDecodeError\<close>, also through the facade, where the claim
  has it return the raw text; the Dynamo backend returns the raw text for the same
  stored value.
\<close>

theorem SSMConfig_get_config_raises_on_plain_text:
  assumes "get_parameters ssm [name] True = Inr \<lparr>parameters = Some (p # ps)\<rparr>"
    and "param_value p = Some stored"
    and "json_loads stored = None"
  shows "SSMConfig_get_config json_loads ssm name = Inl JSONDecodeError
         \<and> (\<forall>(self::config_source) a. default_source self = Some ''SSM'' \<longrightarrow> ssm_adapter self = Some a \<longrightarrow>
               ConfigSource_get_config json_loads ssm gbq environ self name =
                 (Inl JSONDecodeError, self))
         \<and> (\<forall>(d::dynamo_config) (row::dynamo_row) rows env.
               gbq (if environ ''STAGE'' = Some ''test'' \<or> environ ''autotest'' = Some ''True''
                    then (fst (get_dynamo_client d))\<lparr>table_name := ''autotest_config''\<rparr>
                    else fst (get_dynamo_client d)) env name False = row # rows \<longrightarrow>
               config_value row = Some stored \<longrightarrow>
               fst (DynamoConfig_get_config json_loads gbq environ d name env) = PStr stored)"
proof (intro conjI allI impI)
  show raises: "SSMConfig_get_config json_loads ssm name = Inl JSONDecodeError"
    using assms by (simp add: SSMConfig_get_config_def)
  fix self :: config_source and a
  assume "default_source self = Some ''SSM''" and "ssm_adapter self = Some a"
  then show "ConfigSource_get_config json_loads ssm gbq environ self name =
                 (Inl JSONDecodeError, self)"
    using raises by (simp add: ConfigSource_get_config_def)
next
  fix d :: dynamo_config and row :: dynamo_row and rows env
  assume "gbq (if environ ''STAGE'' = Some ''test'' \<or> environ ''autotest'' = Some ''True''
                    then (fst (get_dynamo_client d))\<lparr>table_name := ''autotest_config''\<rparr>
                    else fst (get_dynamo_client d)) env name False = row # rows"
    and "config_value row = Some stored"
  then show "fst (DynamoConfig_get_config json_loads gbq environ d name env) = PStr stored"
    using assms(3) by (simp add: DynamoConfig_get_config_value)
qed

theorem SSMConfig_get_config_raises_on_plain_text_witness:
  "get_parameters example_ssm_client [''greeting''] True =
     Inr \<lparr>parameters =
            Some [\<lparr>param_name = ''greeting'', param_type = ''String'',
                   param_value = Some ''hello world''\<rparr>]\<rparr>
   \<and> example_json_loads ''hello world'' = None
   \<and> SSMConfig_get_config example_json_loads example_ssm_client ''greeting'' =
       Inl JSONDecodeError
   \<and> fst (DynamoConfig_get_config example_json_loads example_get_by_query Map.empty
            (DynamoConfig_init Map.empty False Map.empty) ''greeting'' ''production'') =
       PStr ''hello world''"
proof -
  have resp: "get_parameters example_ssm_client [''greeting''] True =
     Inr \<lparr>parameters =
            Some (\<lparr>param_name = ''greeting'', param_type = ''String'',
                   param_value = Some ''hello world''\<rparr> # [])\<rparr>"
    by (simp add: example_ssm_client_def)
  have val: "param_value \<lparr>param_name = ''greeting'', param_type = ''String'',
                   param_value = Some ''hello world''\<rparr> = Some ''hello world''"
    by simp
  have loads: "example_json_loads ''hello world'' = None"
    by (simp add: example_json_loads_def)
  note inst0 = SSMConfig_get_config_raises_on_plain_text [where ssm = "example_ssm_client" and name = "''greeting''" and stored = "''hello world''" and json_loads = "example_json_loads" and gbq = "example_get_by_query" and environ = "Map.empty" and ps = "[]"]
  note inst = inst0 [OF resp val loads]
  have rows: "example_get_by_query
                (fst (get_dynamo_client (DynamoConfig_init Map.empty False Map.empty)))
                ''production'' ''greeting'' False =
              \<lparr>row_env = ''production'', config_name = ''greeting'',
               config_value = Some ''hello world''\<rparr> # []"
    by (simp add: example_get_by_query_def)
  have dyn: "fst (DynamoConfig_get_config example_json_loads example_get_by_query Map.empty
            (DynamoConfig_init Map.empty False Map.empty) ''greeting'' ''production'') =
       PStr ''hello world''"
    using inst rows by simp
  show ?thesis using resp loads inst dyn by simp
qed

subsection \<open>Test mode of the resolver and its adapters\<close>

lemma init_source_test: "cs_test (init_source environ self source) = cs_test self"
  by (simp add: init_source_def Let_def)

lemma init_sources_test: "cs_test (init_sources environ self srcs) = cs_test self"
  by (induction srcs arbitrary: self) (simp_all add: init_source_test)

lemma init_source_follow:
  "adapters_follow environ self \<Longrightarrow> adapters_follow environ (init_source environ self source)"
  by (auto simp: adapters_follow_def init_source_def Let_def DynamoConfig_init_def
      SSMConfig_init_def split: option.splits)

lemma init_sources_follow:
  "adapters_follow environ self \<Longrightarrow> adapters_follow environ (init_sources environ self srcs)"
  by (induction srcs arbitrary: self) (simp_all add: init_source_follow)

lemma ConfigSource_init_follow:
  assumes "ConfigSource_init environ test sources config = Inr cs"
  shows "adapters_follow environ cs
         \<and> cs_test cs = (if environ ''STAGE'' = Some ''test'' then (test \<or> True) else False)"
proof -
  obtain srcs where cs: "cs = init_sources environ
      \<lparr>cs_test = (if environ ''STAGE'' = Some ''test'' then (test \<or> True) else False),
       cs_config = config, dynamo_adapter = None, ssm_adapter = None, default_source = None,
       secrets_manager_class = SecretsManager_init environ False\<rparr> srcs"
    using assms
    by (auto simp: ConfigSource_init_def Let_def split: sum.splits if_splits sources_arg.splits)
  have "adapters_follow environ
      \<lparr>cs_test = (if environ ''STAGE'' = Some ''test'' then (test \<or> True) else False),
       cs_config = config, dynamo_adapter = None, ssm_adapter = None, default_source = None,
       secrets_manager_class = SecretsManager_init environ False\<rparr>"
    by (simp add: adapters_follow_def)
  then show ?thesis unfolding cs by (simp add: init_sources_follow init_sources_test)
qed

text \<open>
  C4. Outside of \<^verbatim>\<open>STAGE=test\<close> a resolver built with \<^verbatim>\<open>test=True\<close> is not in
  test mode, where the claim has it in test mode: the flag is dropped by the first
  assignment of \<^verbatim>\<open>__init__\<close>, and its adapters, built with \<^verbatim>\<open>test=self.test\<close>, are
  in test mode only when the environment has \<^verbatim>\<open>autotest=True\<close>.
\<close>

theorem ConfigSource_init_drops_test_flag:
  assumes "environ ''STAGE'' \<noteq> Some ''test''"
    and "ConfigSource_init environ True sources config = Inr cs"
  shows "\<not> cs_test cs
         \<and> (\<forall>d. dynamo_adapter cs = Some d \<longrightarrow>
               dynamo_test d = (environ ''autotest'' = Some ''True''))
         \<and> (\<forall>a. ssm_adapter cs = Some a \<longrightarrow>
               ssm_test a = (environ ''autotest'' = Some ''True''))"
proof -
  have follow: "adapters_follow environ cs" and test: "\<not> cs_test cs"
    using ConfigSource_init_follow[OF assms(2)] assms(1) by simp_all
  show ?thesis
    using follow test assms(1) by (auto simp: adapters_follow_def split: option.splits)
qed

lemma strip_examples: "strip ''SSM'' = ''SSM''" "strip '' Dynamo'' = ''Dynamo''"
  by (simp_all add: strip_def is_space_def)

theorem ConfigSource_init_drops_test_flag_witness:
  "(Map.empty :: environ) ''STAGE'' \<noteq> Some ''test''
   \<and> ConfigSource_init Map.empty True (SourcesStr ''SSM, Dynamo'') Map.empty =
       Inr \<lparr>cs_test = False, cs_config = Map.empty,
            dynamo_adapter =
              Some \<lparr>dynamo_test = False, client_config = \<lparr>table_name = ''config''\<rparr>,
                    dynamo_client = None\<rparr>,
            ssm_adapter = Some \<lparr>ssm_test = False\<rparr>,
            default_source = Some ''SSM'',
            secrets_manager_class = \<lparr>secrets_test = False\<rparr>\<rparr>
   \<and> \<not> cs_test
          \<lparr>cs_test = False, cs_config = Map.empty,
            dynamo_adapter =
              Some \<lparr>dynamo_test = False, client_config = \<lparr>table_name = ''config''\<rparr>,
                    dynamo_client = None\<rparr>,
            ssm_adapter = Some \<lparr>ssm_test = False\<rparr>,
            default_source = Some ''SSM'',
            secrets_manager_class = \<lparr>secrets_test = False\<rparr>\<rparr>"
proof -
  have stage: "(Map.empty :: environ) ''STAGE'' \<noteq> Some ''test''" by simp
  have run: "ConfigSource_init Map.empty True (SourcesStr ''SSM, Dynamo'') Map.empty =
       Inr \<lparr>cs_test = False, cs_config = Map.empty,
            dynamo_adapter =
              Some \<lparr>dynamo_test = False, client_config = \<lparr>table_name = ''config''\<rparr>,
                    dynamo_client = None\<rparr>,
            ssm_adapter = Some \<lparr>ssm_test = False\<rparr>,
            default_source = Some ''SSM'',
            secrets_manager_class = \<lparr>secrets_test = False\<rparr>\<rparr>"
    by (simp add: ConfigSource_init_def strip_examples SUPPORTED_SOURCES_def init_source_def
        DynamoConfig_init_def SSMConfig_init_def SecretsManager_init_def Let_def)
  from ConfigSource_init_drops_test_flag[OF stage run]
  show ?thesis using stage run by simp
qed

subsection \<open>Credentials by prefix\<close>

lemma ssm_entries_values:
  "ssm_entries prefix params = Inr es \<Longrightarrow> (k, v) \<in> set es \<Longrightarrow> v \<noteq> PStr ''None''"
proof (induction params arbitrary: es)
  case Nil
  then show ?case by simp
next
  case (Cons x xs)
  then show ?case
    by (auto split: option.splits sum.splits if_splits)
qed

lemma dict_update_values:
  "\<forall>k. d k \<noteq> Some x \<Longrightarrow> \<forall>(k, v) \<in> set es. v \<noteq> x \<Longrightarrow> dict_update d es k \<noteq> Some x"
  unfolding dict_update_def
  by (induction es arbitrary: d) (auto split: prod.splits)

lemma ssm_chunk_loop_values:
  "ssm_chunk_loop ssm prefix dec result cs = Inr res \<Longrightarrow> \<forall>k. result k \<noteq> Some (PStr ''None'')
   \<Longrightarrow> res k \<noteq> Some (PStr ''None'')"
proof (induction cs arbitrary: result)
  case Nil
  then show ?case by simp
next
  case (Cons c cs)
  from Cons.prems(1) obtain pages where pages: "paginated ssm (GetParameters c dec) = Inr pages"
    by (cases "paginated ssm (GetParameters c dec)") auto
  from Cons.prems(1) pages obtain params where params: "all_parameters pages = Inr params"
    by (cases "all_parameters pages") auto
  show ?case
  proof (cases "params = []")
    case True
    then have "ssm_chunk_loop ssm prefix dec result cs = Inr res"
      using Cons.prems(1) pages params by simp
    then show ?thesis using Cons.IH Cons.prems(2) by blast
  next
    case False
    from Cons.prems(1) pages params False obtain es where es: "ssm_entries prefix params = Inr es"
      by (cases "ssm_entries prefix params") auto
    have run: "ssm_chunk_loop ssm prefix dec (dict_update result es) cs = Inr res"
      using Cons.prems(1) pages params False es by simp
    have "\<forall>(k, v) \<in> set es. v \<noteq> PStr ''None''"
      using ssm_entries_values[OF es] by auto
    then have "\<forall>k. dict_update result es k \<noteq> Some (PStr ''None'')"
      using dict_update_values[OF Cons.prems(2)] by blast
    then show ?thesis using Cons.IH[OF run] by blast
  qed
qed

text \<open>
  On the SSM backend no entry of the result holds the text \<^verbatim>\<open>None\<close>: the sentinel is
  replaced by Python's \<^verbatim>\<open>None\<close>.
\<close>

lemma SSMConfig_credentials_without_None_text:
  "SSMConfig_get_credentials_by_prefix chunks ssm self prefix = Inr res \<Longrightarrow>
   res k \<noteq> Some (PStr ''None'')"
  by (auto simp: SSMConfig_get_credentials_by_prefix_def Let_def
      split: sum.splits if_splits dest: ssm_chunk_loop_values)

lemma str_replace_db: "str_replace ''db_'' [] ''db_password'' = ''password''"
  by (simp add: startswith_def)

lemma SSMConfig_credentials_example:
  "chunks [''db_password''] 10 = [[''db_password'']] \<Longrightarrow>
   SSMConfig_get_credentials_by_prefix chunks example_ssm_client \<lparr>ssm_test = False\<rparr> ''db'' =
     Inr [''password'' \<mapsto> PNone]"
  by (simp add: SSMConfig_get_credentials_by_prefix_def example_ssm_client_def endswith_def
      dict_update_def startswith_def Let_def)

text \<open>
  C5. On the Dynamo backend a row whose stored value is the text \<^verbatim>\<open>None\<close> comes back
  from \<^verbatim>\<open>get_credentials_by_prefix\<close> with that text as its value, where the claim has
  a null value: \<^verbatim>\<open>json.loads('None')\<close> raises, the exception is passed over and the
  value stays as stored.
\<close>

theorem DynamoConfig_credentials_keep_None_text:
  assumes "json_loads ''None'' = None"
    and "config_value row = Some ''None''"
    and "p = (if endswith prefix ''_'' then prefix else prefix @ ''_'')"
    and "gbq (fst (get_dynamo_client self))
           (if dynamo_test self \<or> startswith p ''autotest_'' then ''dev'' else env) p True = [row]"
  shows "\<exists>res. fst (DynamoConfig_get_credentials_by_prefix json_loads gbq self prefix env) = Inr res
           \<and> res (str_replace p [] (config_name row)) = Some (PStr ''None'')"
proof -
  obtain client self1 where gc: "get_dynamo_client self = (client, self1)"
    by (cases "get_dynamo_client self")
  have rows: "gbq client
                (if dynamo_test self \<or> startswith p ''autotest_'' then ''dev'' else env) p True =
              [row]"
    using assms(4) gc by simp
  have "fst (DynamoConfig_get_credentials_by_prefix json_loads gbq self prefix env) =
          dynamo_rows_loop json_loads p Map.empty
            (gbq client
               (if dynamo_test self \<or> startswith p ''autotest_'' then ''dev'' else env) p True)"
    unfolding DynamoConfig_get_credentials_by_prefix_def Let_def assms(3) gc by simp
  also have "\<dots> = Inr [str_replace p [] (config_name row) \<mapsto> PStr ''None'']"
    unfolding rows using assms(1) assms(2) by simp
  finally show ?thesis by simp
qed

theorem DynamoConfig_credentials_keep_None_text_witness:
  "example_json_loads ''None'' = None
   \<and> (\<exists>res. fst (DynamoConfig_get_credentials_by_prefix example_json_loads example_get_by_query
                   (DynamoConfig_init Map.empty False Map.empty) ''db'' ''production'') = Inr res
          \<and> res ''password'' = Some (PStr ''None''))"
proof -
  have loads: "example_json_loads ''None'' = None"
    by (simp add: example_json_loads_def)
  have val: "config_value \<lparr>row_env = ''production'', config_name = ''db_password'',
                           config_value = Some ''None''\<rparr> = Some ''None''"
    by simp
  have p: "''db_'' = (if endswith ''db'' ''_'' then ''db'' else ''db'' @ ''_'')"
    by (simp add: endswith_def)
  have rows: "example_get_by_query
                (fst (get_dynamo_client (DynamoConfig_init Map.empty False Map.empty)))
                (if dynamo_test (DynamoConfig_init Map.empty False Map.empty)
                    \<or> startswith ''db_'' ''autotest_'' then ''dev'' else ''production'')
                ''db_'' True =
              [\<lparr>row_env = ''production'', config_name = ''db_password'',
                config_value = Some ''None''\<rparr>]"
    by (simp add: example_get_by_query_def DynamoConfig_init_def startswith_def)
  note inst = DynamoConfig_credentials_keep_None_text [where json_loads = "example_json_loads" and gbq = "example_get_by_query" and self = "DynamoConfig_init Map.empty False Map.empty" and prefix = "''db''" and p = "''db_''" and env = "''production''"]
  from inst [OF loads val p rows]
  show ?thesis using loads by (simp add: startswith_def)
qed

end
